theory Spec2Isabelle
  imports Main "HOL-Library.AList" "HOL-Library.Multiset"
begin

section \<open>Domain (package domain)\<close>

text \<open>
  The Go types \<open>Channel\<close>, \<open>Priority\<close> and \<open>Status\<close> are named string types, so a value
  outside the declared constants can occur (and \<open>Validate\<close> rejects it); they are strings
  here too. A \<open>time.Time\<close> and a \<open>time.Duration\<close> are integers (nanoseconds), and
  \<open>t.Add(d)\<close> is \<open>t + d\<close>. A nullable pointer field is an \<open>option\<close>.
\<close>

type_synonym Channel = string
type_synonym Priority = string
type_synonym Status = string
type_synonym time = int
type_synonym Duration = int

abbreviation ChannelSMS :: Channel where "ChannelSMS \<equiv> ''sms''"
abbreviation ChannelEmail :: Channel where "ChannelEmail \<equiv> ''email''"
abbreviation ChannelPush :: Channel where "ChannelPush \<equiv> ''push''"

abbreviation PriorityHigh :: Priority where "PriorityHigh \<equiv> ''high''"
abbreviation PriorityNormal :: Priority where "PriorityNormal \<equiv> ''normal''"
abbreviation PriorityLow :: Priority where "PriorityLow \<equiv> ''low''"

abbreviation StatusPending :: Status where "StatusPending \<equiv> ''pending''"
abbreviation StatusQueued :: Status where "StatusQueued \<equiv> ''queued''"
abbreviation StatusProcessing :: Status where "StatusProcessing \<equiv> ''processing''"
abbreviation StatusSent :: Status where "StatusSent \<equiv> ''sent''"
abbreviation StatusFailed :: Status where "StatusFailed \<equiv> ''failed''"
abbreviation StatusCancelled :: Status where "StatusCancelled \<equiv> ''cancelled''"
abbreviation StatusScheduled :: Status where "StatusScheduled \<equiv> ''scheduled''"

definition Channel_IsValid :: "Channel \<Rightarrow> bool" where
  "Channel_IsValid c = (c = ChannelSMS \<or> c = ChannelEmail \<or> c = ChannelPush)"

definition Priority_IsValid :: "Priority \<Rightarrow> bool" where
  "Priority_IsValid p = (p = PriorityHigh \<or> p = PriorityNormal \<or> p = PriorityLow)"

text \<open>
  The sentinel errors of the package, and the wrappers built with \<open>fmt.Errorf\<close>:
  \<open>Wrap msg e\<close> is \<open>fmt.Errorf(msg + ": %w", e)\<close>, \<open>WrapItem i e\<close> is
  \<open>fmt.Errorf("item %d: %w", i, e)\<close>, \<open>ErrUnknownPriority p\<close> is
  \<open>fmt.Errorf("unknown priority %q", p)\<close>, and \<open>ErrOther msg\<close> is any other error
  value (a test override, a provider failure).
\<close>

datatype error =
    ErrNotFound
  | ErrConflict
  | ErrInvalidChannel
  | ErrInvalidPriority
  | ErrInvalidRecipient
  | ErrInvalidContent
  | ErrBatchTooLarge
  | ErrBatchEmpty
  | ErrAlreadyCancelled
  | ErrNotCancellable
  | ErrQueueFull
  | ErrUnknownPriority Priority
  | ErrOther string
  | Wrap string error
  | WrapItem nat error

record Notification =
  ID :: string
  BatchID :: "string option"
  Channel :: Channel
  Recipient :: string
  Content :: string
  Priority :: Priority
  Status :: Status
  IdempotencyKey :: "string option"
  RetryCount :: int
  MaxRetries :: int
  NextRetryAt :: "time option"
  ScheduledAt :: "time option"
  SentAt :: "time option"
  ProviderMsgID :: "string option"
  ErrorMessage :: "string option"
  CreatedAt :: time
  UpdatedAt :: time

record Batch =
  B_ID :: string
  Total :: int
  Pending :: int
  Sent :: int
  Failed :: int
  Cancelled :: int
  B_CreatedAt :: time
  B_UpdatedAt :: time

record CreateNotificationRequest =
  ReqChannel :: Channel
  ReqRecipient :: string
  ReqContent :: string
  ReqPriority :: Priority
  ReqScheduledAt :: "time option"

definition Validate :: "CreateNotificationRequest \<Rightarrow> error option" where
  "Validate r =
     (if \<not> Channel_IsValid (ReqChannel r) then Some ErrInvalidChannel
      else if \<not> Priority_IsValid (ReqPriority r) then Some ErrInvalidPriority
      else if ReqRecipient r = [] then Some ErrInvalidRecipient
      else if ReqContent r = [] \<or> length (ReqContent r) > 4096 then Some ErrInvalidContent
      else None)"

section \<open>Priority queue (package queue)\<close>

record Item =
  NotificationID :: string
  ItemChannel :: Channel
  ItemPriority :: Priority

text \<open>
  A buffered Go channel is its buffer, oldest element first, with the capacity it was
  made with. A send inside a \<open>select\<close> with a \<open>default\<close> case succeeds exactly when
  the buffer has room; a receive takes the oldest element.
\<close>

record 'a chan =
  buf :: "'a list"
  cap :: nat

definition make_chan :: "nat \<Rightarrow> 'a chan" where
  "make_chan n = \<lparr>buf = [], cap = n\<rparr>"

definition try_send :: "'a chan \<Rightarrow> 'a \<Rightarrow> 'a chan option" where
  "try_send c x = (if length (buf c) < cap c then Some (c\<lparr>buf := buf c @ [x]\<rparr>) else None)"

definition try_recv :: "'a chan \<Rightarrow> ('a \<times> 'a chan) option" where
  "try_recv c = (case buf c of [] \<Rightarrow> None | x # xs \<Rightarrow> Some (x, c\<lparr>buf := xs\<rparr>))"

record PriorityQueue =
  high :: "Item chan"
  normal :: "Item chan"
  low :: "Item chan"

definition New :: PriorityQueue where
  "New = \<lparr>high = make_chan 1000, normal = make_chan 5000, low = make_chan 2000\<rparr>"

text \<open>\<open>Enqueue\<close> returns the error (\<open>None\<close> is Go's \<open>nil\<close>) and the queue afterwards.\<close>

definition Enqueue :: "PriorityQueue \<Rightarrow> Item \<Rightarrow> error option \<times> PriorityQueue" where
  "Enqueue q item =
     (if ItemPriority item = PriorityHigh then
        (case try_send (high q) item of
           Some c \<Rightarrow> (None, q\<lparr>high := c\<rparr>)
         | None \<Rightarrow> (Some ErrQueueFull, q))
      else if ItemPriority item = PriorityNormal then
        (case try_send (normal q) item of
           Some c \<Rightarrow> (None, q\<lparr>normal := c\<rparr>)
         | None \<Rightarrow> (Some ErrQueueFull, q))
      else if ItemPriority item = PriorityLow then
        (case try_send (low q) item of
           Some c \<Rightarrow> (None, q\<lparr>low := c\<rparr>)
         | None \<Rightarrow> (Some ErrQueueFull, q))
      else (Some (ErrUnknownPriority (ItemPriority item)), q))"

text \<open>
  \<open>Dequeue\<close> is two \<open>select\<close> statements. The first has a \<open>default\<close> case and only
  looks at the high channel. The second blocks: with no case ready the caller sleeps
  (\<open>Blocked\<close>), with several ready the Go runtime picks one of them at random (the
  argument \<open>pick\<close> is that choice). \<open>ctx_done\<close> says whether \<open>ctx.Done()\<close> is closed.
  \<open>Cancelled\<close> is the return value \<open>(Item{}, false)\<close>.
\<close>

datatype dequeue_result = Got Item PriorityQueue | Cancelled | Blocked

definition select_ready :: "bool \<Rightarrow> PriorityQueue \<Rightarrow> dequeue_result list" where
  "select_ready ctx_done q =
     (case try_recv (high q) of Some (x, c) \<Rightarrow> [Got x (q\<lparr>high := c\<rparr>)] | None \<Rightarrow> []) @
     (case try_recv (normal q) of Some (x, c) \<Rightarrow> [Got x (q\<lparr>normal := c\<rparr>)] | None \<Rightarrow> []) @
     (case try_recv (low q) of Some (x, c) \<Rightarrow> [Got x (q\<lparr>low := c\<rparr>)] | None \<Rightarrow> []) @
     (if ctx_done then [Cancelled] else [])"

definition Dequeue :: "bool \<Rightarrow> nat \<Rightarrow> PriorityQueue \<Rightarrow> dequeue_result" where
  "Dequeue ctx_done pick q =
     (case try_recv (high q) of
        Some (x, c) \<Rightarrow> Got x (q\<lparr>high := c\<rparr>)
      | None \<Rightarrow>
          (let ready = select_ready ctx_done q
           in if ready = [] then Blocked else ready ! (pick mod length ready)))"

definition Depths :: "PriorityQueue \<Rightarrow> nat \<times> nat \<times> nat" where
  "Depths q = (length (buf (high q)), length (buf (normal q)), length (buf (low q)))"

text \<open>The capacities \<open>New\<close> gives the three channels; no operation changes them.\<close>

definition default_caps :: "PriorityQueue \<Rightarrow> bool" where
  "default_caps q = (cap (high q) = 1000 \<and> cap (normal q) = 5000 \<and> cap (low q) = 2000)"

section \<open>Repository (package repository)\<close>

text \<open>
  The in-memory repository. A Go map is an association list: \<open>map_of\<close> reads a key and
  \<open>AList.update\<close> writes one (in place when the key is there, at the end otherwise).
  The map holds pointers, so a field assignment through \<open>m.notifications[id]\<close> is an
  update of the entry. Every method holds the mutex from its first line to its return,
  so every method is one atomic step.

  Ranging over a Go map visits its entries in an order the language leaves open and
  that differs from one loop to the next. Where a method's result shows that order
  (\<open>GetBatch\<close> returns the children in it), the order is an argument of the method:
  \<open>range_order picks al\<close> lists the entries of \<open>al\<close> as the runtime's choices
  \<open>picks\<close> visit them, and every order is one of these. Where only the first match
  counts (\<open>GetByIdempotencyKey\<close>) or only whether there is one (\<open>Create\<close>), the list's
  own order is used; with at most one matching row the order makes no difference there.

  A method returning \<open>error\<close> returns \<open>error option\<close> (\<open>None\<close> is \<open>nil\<close>) and the
  repository afterwards; a method returning a value and an error returns a sum.
\<close>

fun range_order :: "nat list \<Rightarrow> 'a list \<Rightarrow> 'a list" where
  "range_order picks [] = []"
| "range_order [] (x # xs) = x # xs"
| "range_order (p # picks) (x # xs) =
     (let i = p mod length (x # xs)
      in (x # xs) ! i # range_order picks (take i (x # xs) @ drop (Suc i) (x # xs)))"

record MockNotificationRepository =
  notifications :: "(string \<times> Notification) list"
  batches :: "(string \<times> Batch) list"
  CreateErr :: "error option"
  GetByIDErr :: "error option"
  GetByIdempotencyKeyErr :: "error option"

definition NewMockNotificationRepository :: MockNotificationRepository where
  "NewMockNotificationRepository =
     \<lparr>notifications = [], batches = [], CreateErr = None, GetByIDErr = None,
      GetByIdempotencyKeyErr = None\<rparr>"

definition Mock_Create ::
  "MockNotificationRepository \<Rightarrow> Notification \<Rightarrow> error option \<times> MockNotificationRepository" where
  "Mock_Create m n =
     (case CreateErr m of
        Some e \<Rightarrow> (Some e, m)
      | None \<Rightarrow>
          if IdempotencyKey n \<noteq> None \<and>
             list_ex (\<lambda>(k, existing). IdempotencyKey existing \<noteq> None \<and>
                                     IdempotencyKey existing = IdempotencyKey n)
                     (notifications m)
          then (Some ErrConflict, m)
          else (None, m\<lparr>notifications := AList.update (ID n) n (notifications m)\<rparr>))"

definition Mock_GetByID :: "MockNotificationRepository \<Rightarrow> string \<Rightarrow> error + Notification" where
  "Mock_GetByID m nid =
     (case GetByIDErr m of
        Some e \<Rightarrow> Inl e
      | None \<Rightarrow>
          (case map_of (notifications m) nid of
             None \<Rightarrow> Inl ErrNotFound
           | Some n \<Rightarrow> Inr n))"

definition Mock_GetByIdempotencyKey ::
  "MockNotificationRepository \<Rightarrow> string \<Rightarrow> error + Notification" where
  "Mock_GetByIdempotencyKey m key =
     (case GetByIdempotencyKeyErr m of
        Some e \<Rightarrow> Inl e
      | None \<Rightarrow>
          (case find (\<lambda>(k, n). IdempotencyKey n = Some key) (notifications m) of
             Some (k, n) \<Rightarrow> Inr n
           | None \<Rightarrow> Inl ErrNotFound))"

definition Mock_UpdateStatus ::
  "MockNotificationRepository \<Rightarrow> string \<Rightarrow> Status \<Rightarrow> error option \<times> MockNotificationRepository" where
  "Mock_UpdateStatus m nid status =
     (case map_of (notifications m) nid of
        Some n \<Rightarrow>
          (None, m\<lparr>notifications := AList.update nid (n\<lparr>Status := status\<rparr>) (notifications m)\<rparr>)
      | None \<Rightarrow> (None, m))"

definition Mock_MarkSent ::
  "MockNotificationRepository \<Rightarrow> string \<Rightarrow> string \<Rightarrow> time \<Rightarrow>
     error option \<times> MockNotificationRepository" where
  "Mock_MarkSent m nid providerMsgID sentAt =
     (case map_of (notifications m) nid of
        Some n \<Rightarrow>
          (None, m\<lparr>notifications :=
                     AList.update nid
                       (n\<lparr>Status := StatusSent, ProviderMsgID := Some providerMsgID,
                          SentAt := Some sentAt\<rparr>)
                       (notifications m)\<rparr>)
      | None \<Rightarrow> (None, m))"

definition Mock_MarkFailed ::
  "MockNotificationRepository \<Rightarrow> string \<Rightarrow> string \<Rightarrow> error option \<times> MockNotificationRepository" where
  "Mock_MarkFailed m nid errMsg =
     (case map_of (notifications m) nid of
        Some n \<Rightarrow>
          (None, m\<lparr>notifications :=
                     AList.update nid (n\<lparr>Status := StatusFailed, ErrorMessage := Some errMsg\<rparr>)
                       (notifications m)\<rparr>)
      | None \<Rightarrow> (None, m))"

definition Mock_ScheduleRetry ::
  "MockNotificationRepository \<Rightarrow> string \<Rightarrow> int \<Rightarrow> time \<Rightarrow> string \<Rightarrow>
     error option \<times> MockNotificationRepository" where
  "Mock_ScheduleRetry m nid retryCount nextRetry errMsg =
     (case map_of (notifications m) nid of
        Some n \<Rightarrow>
          (None, m\<lparr>notifications :=
                     AList.update nid
                       (n\<lparr>RetryCount := retryCount, NextRetryAt := Some nextRetry,
                          ErrorMessage := Some errMsg, Status := StatusFailed\<rparr>)
                       (notifications m)\<rparr>)
      | None \<Rightarrow> (None, m))"

definition Mock_Cancel ::
  "MockNotificationRepository \<Rightarrow> string \<Rightarrow> error option \<times> MockNotificationRepository" where
  "Mock_Cancel m nid =
     (case map_of (notifications m) nid of
        Some n \<Rightarrow>
          (None, m\<lparr>notifications := AList.update nid (n\<lparr>Status := StatusCancelled\<rparr>) (notifications m)\<rparr>)
      | None \<Rightarrow> (None, m))"

text \<open>
  \<open>CreateBatch\<close> reads the clock twice, for the batch's \<open>CreatedAt\<close> and \<open>UpdatedAt\<close>:
  the two readings are the arguments \<open>created\<close> and \<open>updated\<close>.
\<close>

definition Mock_CreateBatch ::
  "time \<Rightarrow> time \<Rightarrow> MockNotificationRepository \<Rightarrow> string \<Rightarrow> Notification list \<Rightarrow>
     (error + Batch) \<times> MockNotificationRepository" where
  "Mock_CreateBatch created updated m batchID ns =
     (let batch = \<lparr>B_ID = batchID, Total = int (length ns), Pending = int (length ns),
                   Sent = 0, Failed = 0, Cancelled = 0,
                   B_CreatedAt = created, B_UpdatedAt = updated\<rparr>
      in (Inr batch,
          m\<lparr>batches := AList.update batchID batch (batches m),
            notifications := foldl (\<lambda>al n. AList.update (ID n) n al) (notifications m) ns\<rparr>))"

definition Mock_GetBatch ::
  "nat list \<Rightarrow> MockNotificationRepository \<Rightarrow> string \<Rightarrow>
     error + (Batch \<times> Notification list)" where
  "Mock_GetBatch picks m batchID =
     (case map_of (batches m) batchID of
        None \<Rightarrow> Inl ErrNotFound
      | Some b \<Rightarrow>
          Inr (b, map snd (filter (\<lambda>(k, n). BatchID n \<noteq> None \<and> BatchID n = Some batchID)
                                  (range_order picks (notifications m)))))"

text \<open>
  The PostgreSQL repository's \<open>MarkFailed\<close> is one statement,
  \<open>UPDATE notifications SET status = 'failed', error_message = $1, next_retry_at = NULL
  WHERE id = $2\<close>, on a table whose primary key is \<open>id\<close> and whose trigger
  \<open>trg_notifications_updated_at\<close> sets \<open>updated_at = NOW()\<close> on every updated row. The
  table is the list of its rows by key, \<open>now\<close> is the database's clock, and the statement
  is taken to succeed.
\<close>

definition pg_MarkFailed ::
  "time \<Rightarrow> (string \<times> Notification) list \<Rightarrow> string \<Rightarrow> string \<Rightarrow>
     error option \<times> (string \<times> Notification) list" where
  "pg_MarkFailed now rows nid errMsg =
     (None,
      map (\<lambda>(k, n). if k = nid
                     then (k, n\<lparr>Status := StatusFailed, ErrorMessage := Some errMsg,
                                NextRetryAt := None, UpdatedAt := now\<rparr>)
                     else (k, n))
          rows)"

section \<open>Service (package service)\<close>

text \<open>
  The service holds pointers to the repository and the queue; its state is the pair of
  their states. \<open>time.Now().UTC()\<close> and \<open>uuid.New().String()\<close> read the environment:
  the value each call yields is an argument of the function that makes the call.
  The functions of this section run a call from its first line to its return with no
  other goroutine in between; a later section puts the other goroutines between the
  repository and queue calls of a service call.
\<close>

record NotificationService =
  repo :: MockNotificationRepository
  q :: PriorityQueue

fun errors_Is :: "error \<Rightarrow> error \<Rightarrow> bool" where
  "errors_Is (Wrap msg e) target = (Wrap msg e = target \<or> errors_Is e target)"
| "errors_Is (WrapItem i e) target = (WrapItem i e = target \<or> errors_Is e target)"
| "errors_Is e target = (e = target)"

definition buildNotification ::
  "time \<Rightarrow> string \<Rightarrow> CreateNotificationRequest \<Rightarrow> string \<Rightarrow> string option \<Rightarrow> Notification" where
  "buildNotification now uuid req idempotencyKey batchID =
     \<lparr>ID = uuid,
      BatchID = batchID,
      Channel = ReqChannel req,
      Recipient = ReqRecipient req,
      Content = ReqContent req,
      Priority = ReqPriority req,
      Status = (if ReqScheduledAt req \<noteq> None then StatusScheduled else StatusPending),
      IdempotencyKey = (if idempotencyKey \<noteq> [] then Some idempotencyKey else None),
      RetryCount = 0,
      MaxRetries = 3,
      NextRetryAt = None,
      ScheduledAt = ReqScheduledAt req,
      SentAt = None,
      ProviderMsgID = None,
      ErrorMessage = None,
      CreatedAt = now,
      UpdatedAt = now\<rparr>"

text \<open>
  \<open>enqueue\<close> returns nothing in Go and assigns \<open>n.Status\<close> through the pointer it was
  given: here it returns the notification as the caller sees it afterwards, and the
  state. Both error branches only write to the log.
\<close>

definition enqueue :: "NotificationService \<Rightarrow> Notification \<Rightarrow> Notification \<times> NotificationService" where
  "enqueue s n =
     (if ScheduledAt n \<noteq> None then (n, s)
      else
        (case Enqueue (q s) \<lparr>NotificationID = ID n, ItemChannel = Channel n, ItemPriority = Priority n\<rparr> of
           (Some err, q') \<Rightarrow> (n, s\<lparr>q := q'\<rparr>)
         | (None, q') \<Rightarrow>
             (case Mock_UpdateStatus (repo s) (ID n) StatusQueued of
                (Some err, r') \<Rightarrow> (n, s\<lparr>q := q', repo := r'\<rparr>)
              | (None, r') \<Rightarrow> (n\<lparr>Status := StatusQueued\<rparr>, s\<lparr>q := q', repo := r'\<rparr>))))"

definition Create ::
  "time \<Rightarrow> string \<Rightarrow> NotificationService \<Rightarrow> CreateNotificationRequest \<Rightarrow> string \<Rightarrow>
     (error + Notification \<times> bool) \<times> NotificationService" where
  "Create now uuid s req idempotencyKey =
     (case Validate req of
        Some err \<Rightarrow> (Inl err, s)
      | None \<Rightarrow>
          (case (if idempotencyKey \<noteq> [] then
                   (case Mock_GetByIdempotencyKey (repo s) idempotencyKey of
                      Inl err \<Rightarrow>
                        if \<not> errors_Is err ErrNotFound
                        then Some (Inl (Wrap ''idempotency lookup'' err))
                        else None
                    | Inr existing \<Rightarrow> Some (Inr (existing, True)))
                 else None) of
             Some early \<Rightarrow> (early, s)
           | None \<Rightarrow>
               (let n = buildNotification now uuid req idempotencyKey None
                in case Mock_Create (repo s) n of
                     (Some err, r') \<Rightarrow> (Inl (Wrap ''persist notification'' err), s\<lparr>repo := r'\<rparr>)
                   | (None, r') \<Rightarrow>
                       (case enqueue (s\<lparr>repo := r'\<rparr>) n of
                          (n', s') \<Rightarrow> (Inr (n', False), s')))))"

text \<open>
  The first loop of \<open>CreateBatch\<close>. \<open>gen k\<close> is the value of the \<open>k\<close>-th call of
  \<open>uuid.New()\<close> the request makes: call 0 gives the batch id, and item \<open>i\<close>, reached
  only when all items before it are valid, makes call \<open>i + 1\<close>. \<open>buildNotification\<close>
  reads the clock itself, but both timestamps it sets are overwritten by the shared
  \<open>now\<close> at once, so that reading is \<open>now\<close> here as well.
\<close>

fun build_items ::
  "time \<Rightarrow> string \<Rightarrow> (nat \<Rightarrow> string) \<Rightarrow> nat \<Rightarrow> CreateNotificationRequest list \<Rightarrow>
     error + Notification list" where
  "build_items now batchID gen i [] = Inr []"
| "build_items now batchID gen i (req # reqs) =
     (case Validate req of
        Some err \<Rightarrow> Inl (WrapItem i err)
      | None \<Rightarrow>
          (case build_items now batchID gen (Suc i) reqs of
             Inl err \<Rightarrow> Inl err
           | Inr ns \<Rightarrow>
               Inr ((buildNotification now (gen (Suc i)) req [] (Some batchID))
                      \<lparr>CreatedAt := now, UpdatedAt := now\<rparr> # ns)))"

text \<open>The second loop: every child without \<open>ScheduledAt\<close> is enqueued.\<close>

fun enqueue_all :: "NotificationService \<Rightarrow> Notification list \<Rightarrow> NotificationService" where
  "enqueue_all s [] = s"
| "enqueue_all s (n # ns) =
     (if ScheduledAt n = None then enqueue_all (snd (enqueue s n)) ns else enqueue_all s ns)"

definition CreateBatch ::
  "time \<Rightarrow> (nat \<Rightarrow> string) \<Rightarrow> time \<Rightarrow> time \<Rightarrow> NotificationService \<Rightarrow>
     CreateNotificationRequest list \<Rightarrow> (error + Batch) \<times> NotificationService" where
  "CreateBatch now gen created updated s requests =
     (if length requests = 0 then (Inl ErrBatchEmpty, s)
      else if length requests > 1000 then (Inl ErrBatchTooLarge, s)
      else
        (let batchID = gen 0
         in case build_items now batchID gen 0 requests of
              Inl err \<Rightarrow> (Inl err, s)
            | Inr ns \<Rightarrow>
                (case Mock_CreateBatch created updated (repo s) batchID ns of
                   (Inl err, r') \<Rightarrow> (Inl (Wrap ''persist batch'' err), s\<lparr>repo := r'\<rparr>)
                 | (Inr batch, r') \<Rightarrow> (Inr batch, enqueue_all (s\<lparr>repo := r'\<rparr>) ns))))"

definition Cancel :: "NotificationService \<Rightarrow> string \<Rightarrow> error option \<times> NotificationService" where
  "Cancel s nid =
     (case Mock_GetByID (repo s) nid of
        Inl err \<Rightarrow> (Some err, s)
      | Inr n \<Rightarrow>
          if Status n = StatusCancelled then (Some ErrAlreadyCancelled, s)
          else if Status n = StatusProcessing \<or> Status n = StatusSent then (Some ErrNotCancellable, s)
          else (case Mock_Cancel (repo s) nid of (err, r') \<Rightarrow> (err, s\<lparr>repo := r'\<rparr>)))"

section \<open>HTTP error mapping (package handler)\<close>

text \<open>\<open>mapError\<close> writes a status code and the error's text; the code is what is kept.\<close>

definition mapError :: "error \<Rightarrow> nat" where
  "mapError err =
     (if errors_Is err ErrNotFound then 404
      else if errors_Is err ErrConflict \<or> errors_Is err ErrAlreadyCancelled \<or>
              errors_Is err ErrNotCancellable then 409
      else if errors_Is err ErrInvalidChannel \<or> errors_Is err ErrInvalidPriority \<or>
              errors_Is err ErrInvalidContent \<or> errors_Is err ErrInvalidRecipient \<or>
              errors_Is err ErrBatchTooLarge \<or> errors_Is err ErrBatchEmpty then 422
      else if errors_Is err ErrQueueFull then 503
      else 500)"

section \<open>Worker (package worker)\<close>

text \<open>
  A failed \<open>Send\<close> is represented by the text of its error, which is all
  \<open>handleFailure\<close> reads of it (\<open>sendErr.Error()\<close>). Indexing a slice out of range
  panics. \<open>RetryCount\<close> and \<open>MaxRetries\<close> are Go \<open>int\<close>s, here integers: the one
  addition, \<open>RetryCount + 1\<close>, happens only below \<open>MaxRetries\<close> and cannot wrap around.
  Errors of the repository calls are logged and otherwise ignored.
\<close>

datatype panic = IndexOutOfRange

definition handleFailure ::
  "Duration list \<Rightarrow> time \<Rightarrow> MockNotificationRepository \<Rightarrow> Notification \<Rightarrow> string \<Rightarrow>
     panic + MockNotificationRepository" where
  "handleFailure backoff now m n sendErr =
     (if RetryCount n \<ge> MaxRetries n then Inr (snd (Mock_MarkFailed m (ID n) sendErr))
      else
        (let idx = (if RetryCount n \<ge> int (length backoff) then int (length backoff) - 1
                    else RetryCount n)
         in if idx < 0 \<or> idx \<ge> int (length backoff) then Inl IndexOutOfRange
            else Inr (snd (Mock_ScheduleRetry m (ID n) (RetryCount n + 1)
                             (now + backoff ! nat idx) sendErr))))"

text \<open>
  \<open>process\<close> handles one dequeued item. \<open>send\<close> is the provider (\<open>Inl\<close> the text of its
  error, \<open>Inr\<close> the message id of its response), \<open>wait_err\<close> the result of the rate
  limiter's \<open>Wait\<close>, \<open>now\<close> the clock at the settle step. The result is the repository
  afterwards and the notifications handed to the provider, in order; logging, the metric
  hooks and the batch counter refresh (which does nothing in this repository) are left out.
\<close>

definition process ::
  "Duration list \<Rightarrow> (Notification \<Rightarrow> string + string) \<Rightarrow> error option \<Rightarrow> time \<Rightarrow>
     MockNotificationRepository \<Rightarrow> Item \<Rightarrow>
     panic + (MockNotificationRepository \<times> Notification list)" where
  "process backoff send wait_err now m item =
     (case Mock_GetByID m (NotificationID item) of
        Inl err \<Rightarrow> Inr (m, [])
      | Inr n \<Rightarrow>
          if Status n = StatusCancelled then Inr (m, [])
          else
            (case Mock_UpdateStatus m (ID n) StatusProcessing of
               (Some err, m1) \<Rightarrow> Inr (m1, [])
             | (None, m1) \<Rightarrow>
                 (case wait_err of
                    Some err \<Rightarrow> Inr (m1, [])
                  | None \<Rightarrow>
                      (case send n of
                         Inl sendErr \<Rightarrow>
                           (case handleFailure backoff now m1 n sendErr of
                              Inl p \<Rightarrow> Inl p
                            | Inr m2 \<Rightarrow> Inr (m2, [n]))
                       | Inr messageID \<Rightarrow>
                           (case Mock_MarkSent m1 (ID n) messageID now of
                              (err, m2) \<Rightarrow> Inr (m2, [n]))))))"

section \<open>Service calls among other goroutines\<close>

text \<open>
  A service call is several repository and queue calls, each atomic on its own. Between
  two of them the other goroutines (workers, schedulers, other requests) may make calls
  of theirs. What they do to the shared state in one such gap is a function of type
  \<open>others\<close>, and the functions below are the service's, with one \<open>others\<close>
  argument for every gap between two of their calls. With the identity in every gap
  they are the functions of the section before. \<open>Create\<close> has a gap \<open>g1\<close> after
  the key lookup (when it makes one), \<open>g2\<close> after \<open>repo.Create\<close> and \<open>g3\<close> inside
  \<open>enqueue\<close>, between \<open>Enqueue\<close> and \<open>UpdateStatus\<close>. \<open>CreateBatch\<close> has a gap
  \<open>g0\<close> after \<open>repo.CreateBatch\<close> and two for child number \<open>k\<close> when it is enqueued:
  \<open>gap (2 * k)\<close> inside its \<open>enqueue\<close> and \<open>gap (2 * k + 1)\<close> after it. \<open>Cancel\<close>
  has one gap, between \<open>GetByID\<close> and \<open>repo.Cancel\<close>.
\<close>

type_synonym others = "NotificationService \<Rightarrow> NotificationService"

definition enqueue_among ::
  "others \<Rightarrow> NotificationService \<Rightarrow> Notification \<Rightarrow> Notification \<times> NotificationService" where
  "enqueue_among g s n =
     (if ScheduledAt n \<noteq> None then (n, s)
      else
        (case Enqueue (q s) \<lparr>NotificationID = ID n, ItemChannel = Channel n, ItemPriority = Priority n\<rparr> of
           (Some err, q') \<Rightarrow> (n, s\<lparr>q := q'\<rparr>)
         | (None, q') \<Rightarrow>
             (let s1 = g (s\<lparr>q := q'\<rparr>)
              in case Mock_UpdateStatus (repo s1) (ID n) StatusQueued of
                   (Some err, r') \<Rightarrow> (n, s1\<lparr>repo := r'\<rparr>)
                 | (None, r') \<Rightarrow> (n\<lparr>Status := StatusQueued\<rparr>, s1\<lparr>repo := r'\<rparr>))))"

definition Create_among ::
  "others \<Rightarrow> others \<Rightarrow> others \<Rightarrow> time \<Rightarrow> string \<Rightarrow> NotificationService \<Rightarrow>
     CreateNotificationRequest \<Rightarrow> string \<Rightarrow>
     (error + Notification \<times> bool) \<times> NotificationService" where
  "Create_among g1 g2 g3 now uuid s req idempotencyKey =
     (case Validate req of
        Some err \<Rightarrow> (Inl err, s)
      | None \<Rightarrow>
          (case (if idempotencyKey \<noteq> [] then
                   (case Mock_GetByIdempotencyKey (repo s) idempotencyKey of
                      Inl err \<Rightarrow>
                        if \<not> errors_Is err ErrNotFound
                        then Some (Inl (Wrap ''idempotency lookup'' err))
                        else None
                    | Inr existing \<Rightarrow> Some (Inr (existing, True)))
                 else None) of
             Some early \<Rightarrow> (early, s)
           | None \<Rightarrow>
               (let n = buildNotification now uuid req idempotencyKey None;
                    s1 = (if idempotencyKey \<noteq> [] then g1 s else s)
                in case Mock_Create (repo s1) n of
                     (Some err, r') \<Rightarrow> (Inl (Wrap ''persist notification'' err), s1\<lparr>repo := r'\<rparr>)
                   | (None, r') \<Rightarrow>
                       (case enqueue_among g3 (g2 (s1\<lparr>repo := r'\<rparr>)) n of
                          (n', s') \<Rightarrow> (Inr (n', False), s')))))"

fun enqueue_all_among ::
  "(nat \<Rightarrow> others) \<Rightarrow> nat \<Rightarrow> NotificationService \<Rightarrow> Notification list \<Rightarrow> NotificationService" where
  "enqueue_all_among gap k s [] = s"
| "enqueue_all_among gap k s (n # ns) =
     (if ScheduledAt n = None
      then enqueue_all_among gap (Suc k)
             (gap (2 * k + 1) (snd (enqueue_among (gap (2 * k)) s n))) ns
      else enqueue_all_among gap (Suc k) s ns)"

definition CreateBatch_among ::
  "others \<Rightarrow> (nat \<Rightarrow> others) \<Rightarrow> time \<Rightarrow> (nat \<Rightarrow> string) \<Rightarrow> time \<Rightarrow> time \<Rightarrow>
     NotificationService \<Rightarrow> CreateNotificationRequest list \<Rightarrow>
     (error + Batch) \<times> NotificationService" where
  "CreateBatch_among g0 gap now gen created updated s requests =
     (if length requests = 0 then (Inl ErrBatchEmpty, s)
      else if length requests > 1000 then (Inl ErrBatchTooLarge, s)
      else
        (let batchID = gen 0
         in case build_items now batchID gen 0 requests of
              Inl err \<Rightarrow> (Inl err, s)
            | Inr ns \<Rightarrow>
                (case Mock_CreateBatch created updated (repo s) batchID ns of
                   (Inl err, r') \<Rightarrow> (Inl (Wrap ''persist batch'' err), s\<lparr>repo := r'\<rparr>)
                 | (Inr batch, r') \<Rightarrow>
                     (Inr batch, enqueue_all_among gap 0 (g0 (s\<lparr>repo := r'\<rparr>)) ns))))"

definition Cancel_among ::
  "others \<Rightarrow> NotificationService \<Rightarrow> string \<Rightarrow> error option \<times> NotificationService" where
  "Cancel_among g s nid =
     (case Mock_GetByID (repo s) nid of
        Inl err \<Rightarrow> (Some err, s)
      | Inr n \<Rightarrow>
          if Status n = StatusCancelled then (Some ErrAlreadyCancelled, s)
          else if Status n = StatusProcessing \<or> Status n = StatusSent then (Some ErrNotCancellable, s)
          else (case Mock_Cancel (repo (g s)) nid of (err, r') \<Rightarrow> (err, (g s)\<lparr>repo := r'\<rparr>)))"

section \<open>Sequences of service calls\<close>







text \<open>
  Repeated \<open>Create\<close> calls with one idempotency key, each with its own clock value,
  uuid and body; the results are collected in call order.
\<close>

fun Create_many ::
  "NotificationService \<Rightarrow> string \<Rightarrow> (time \<times> string \<times> CreateNotificationRequest) list \<Rightarrow>
     (error + Notification \<times> bool) list \<times> NotificationService" where
  "Create_many s idempotencyKey [] = ([], s)"
| "Create_many s idempotencyKey ((now, uuid, req) # calls) =
     (case Create now uuid s req idempotencyKey of
        (r, s') \<Rightarrow>
          (case Create_many s' idempotencyKey calls of
             (rs, s'') \<Rightarrow> (r # rs, s'')))"

text \<open>A channel whose buffer is full, and a repository in which no row carries a key.\<close>

definition saturated :: "'a chan \<Rightarrow> bool" where
  "saturated c = (cap c \<le> length (buf c))"

definition key_absent :: "MockNotificationRepository \<Rightarrow> string \<Rightarrow> bool" where
  "key_absent m key = (\<not> list_ex (\<lambda>(k, n). IdempotencyKey n = Some key) (notifications m))"

definition rows_with_key :: "MockNotificationRepository \<Rightarrow> string \<Rightarrow> Notification list" where
  "rows_with_key m key = map snd (filter (\<lambda>(k, n). IdempotencyKey n = Some key) (notifications m))"

text \<open>What \<open>GetBatch\<close> looks at in a stored row: the batch it belongs to, and its id.\<close>

abbreviation child_view :: "(string \<times> Notification) list \<Rightarrow> (string option \<times> string) list" where
  "child_view al \<equiv> map (\<lambda>(k, n). (BatchID n, ID n)) al"

section \<open>Test fixture (package \<open>service_test\<close>)\<close>

definition validReq :: CreateNotificationRequest where
  "validReq = \<lparr>ReqChannel = ChannelSMS, ReqRecipient = ''+905551234567'',
               ReqContent = ''Test message'', ReqPriority = PriorityNormal,
               ReqScheduledAt = None\<rparr>"

section \<open>Properties of the queue\<close>

lemma default_caps_New: "default_caps New"
  by (simp add: default_caps_def New_def make_chan_def)

lemma default_caps_Enqueue: "default_caps pq \<Longrightarrow> default_caps (snd (Enqueue pq item))"
  by (auto simp: default_caps_def Enqueue_def try_send_def)

lemma default_caps_Dequeue:
  "default_caps pq \<Longrightarrow> Dequeue d k pq = Got x pq' \<Longrightarrow> default_caps pq'"
proof -
  assume caps: "default_caps pq" and got: "Dequeue d k pq = Got x pq'"
  have ready: "Got x pq' \<in> set (select_ready d pq) \<Longrightarrow> default_caps pq'"
    using caps
    by (auto simp: select_ready_def try_recv_def default_caps_def split: list.splits if_splits)
  show ?thesis
  proof (cases "buf (high pq)")
    case Nil
    then have "Dequeue d k pq =
        (if select_ready d pq = [] then Blocked
         else select_ready d pq ! (k mod length (select_ready d pq)))"
      by (simp add: Dequeue_def try_recv_def Let_def)
    with got have "Got x pq' \<in> set (select_ready d pq)"
      by (auto split: if_splits simp: in_set_conv_nth intro!: exI [of _ "k mod length (select_ready d pq)"])
    then show ?thesis by (rule ready)
  next
    case (Cons y ys)
    with got caps show ?thesis
      by (auto simp: Dequeue_def try_recv_def default_caps_def)
  qed
qed

text \<open>
  C6. \<open>Enqueue\<close> never blocks. On a queue with the capacities of \<open>New\<close> (1000, 5000,
  2000) and an item of priority high, normal or low: when the channel of that priority
  already holds its capacity, \<open>Enqueue\<close> returns \<open>ErrQueueFull\<close> and the queue is the
  one it was given, all three tiers included; otherwise it returns \<open>nil\<close> and the item
  is the new last element of that tier, the other two tiers being as before.
\<close>

theorem Enqueue_full_or_appended:
  assumes "default_caps pq"
  shows "(ItemPriority item = PriorityHigh \<longrightarrow>
            Enqueue pq item =
              (if 1000 \<le> length (buf (high pq)) then (Some ErrQueueFull, pq)
               else (None, pq\<lparr>high := (high pq)\<lparr>buf := buf (high pq) @ [item]\<rparr>\<rparr>))) \<and>
         (ItemPriority item = PriorityNormal \<longrightarrow>
            Enqueue pq item =
              (if 5000 \<le> length (buf (normal pq)) then (Some ErrQueueFull, pq)
               else (None, pq\<lparr>normal := (normal pq)\<lparr>buf := buf (normal pq) @ [item]\<rparr>\<rparr>))) \<and>
         (ItemPriority item = PriorityLow \<longrightarrow>
            Enqueue pq item =
              (if 2000 \<le> length (buf (low pq)) then (Some ErrQueueFull, pq)
               else (None, pq\<lparr>low := (low pq)\<lparr>buf := buf (low pq) @ [item]\<rparr>\<rparr>)))"
  using assms by (simp add: Enqueue_def try_send_def default_caps_def)

theorem Enqueue_full_or_appended_witness:
  "default_caps (New\<lparr>high := (high New)\<lparr>buf := replicate 1000 \<lparr>NotificationID = ''a'', ItemChannel = ChannelSMS, ItemPriority = PriorityHigh\<rparr>\<rparr>\<rparr>) \<and>
   Enqueue (New\<lparr>high := (high New)\<lparr>buf := replicate 1000 \<lparr>NotificationID = ''a'', ItemChannel = ChannelSMS, ItemPriority = PriorityHigh\<rparr>\<rparr>\<rparr>)
       \<lparr>NotificationID = ''b'', ItemChannel = ChannelSMS, ItemPriority = PriorityHigh\<rparr>
     = (Some ErrQueueFull,
        New\<lparr>high := (high New)\<lparr>buf := replicate 1000 \<lparr>NotificationID = ''a'', ItemChannel = ChannelSMS, ItemPriority = PriorityHigh\<rparr>\<rparr>\<rparr>) \<and>
   Enqueue (New\<lparr>high := (high New)\<lparr>buf := replicate 1000 \<lparr>NotificationID = ''a'', ItemChannel = ChannelSMS, ItemPriority = PriorityHigh\<rparr>\<rparr>\<rparr>)
       \<lparr>NotificationID = ''c'', ItemChannel = ChannelPush, ItemPriority = PriorityLow\<rparr>
     = (None,
        New\<lparr>high := (high New)\<lparr>buf := replicate 1000 \<lparr>NotificationID = ''a'', ItemChannel = ChannelSMS, ItemPriority = PriorityHigh\<rparr>\<rparr>,
            low := (low New)\<lparr>buf := [\<lparr>NotificationID = ''c'', ItemChannel = ChannelPush, ItemPriority = PriorityLow\<rparr>]\<rparr>\<rparr>)"
proof -
  let ?Q = "New\<lparr>high := (high New)\<lparr>buf := replicate 1000 \<lparr>NotificationID = ''a'', ItemChannel = ChannelSMS, ItemPriority = PriorityHigh\<rparr>\<rparr>\<rparr>"
  have caps: "default_caps ?Q"
    by (simp add: default_caps_def New_def make_chan_def)
  from Enqueue_full_or_appended [OF caps, of "\<lparr>NotificationID = ''b'', ItemChannel = ChannelSMS, ItemPriority = PriorityHigh\<rparr>"]
       Enqueue_full_or_appended [OF caps, of "\<lparr>NotificationID = ''c'', ItemChannel = ChannelPush, ItemPriority = PriorityLow\<rparr>"]
       caps
  show ?thesis
    by (simp add: New_def make_chan_def)
qed

text \<open>
  C1. Whenever the high channel holds an item when \<open>Dequeue\<close> is called, \<open>Dequeue\<close>
  returns (it neither blocks nor reports cancellation), the item it returns is the oldest
  one of the high channel, and the normal and low channels keep all their items:
  whatever they hold, whether the context is done, and whatever the runtime would pick.
\<close>

theorem Dequeue_high_first:
  assumes "buf (high pq) \<noteq> []"
  shows "Dequeue ctx_done pick pq =
           Got (hd (buf (high pq))) (pq\<lparr>high := (high pq)\<lparr>buf := tl (buf (high pq))\<rparr>\<rparr>)"
  using assms by (cases "buf (high pq)") (simp_all add: Dequeue_def try_recv_def)

theorem Dequeue_high_first_witness:
  "buf (high (New\<lparr>high := (high New)\<lparr>buf := [\<lparr>NotificationID = ''h'', ItemChannel = ChannelSMS, ItemPriority = PriorityHigh\<rparr>]\<rparr>,
                  normal := (normal New)\<lparr>buf := [\<lparr>NotificationID = ''n'', ItemChannel = ChannelSMS, ItemPriority = PriorityNormal\<rparr>]\<rparr>\<rparr>)) \<noteq> [] \<and>
   Dequeue True 1 (New\<lparr>high := (high New)\<lparr>buf := [\<lparr>NotificationID = ''h'', ItemChannel = ChannelSMS, ItemPriority = PriorityHigh\<rparr>]\<rparr>,
                  normal := (normal New)\<lparr>buf := [\<lparr>NotificationID = ''n'', ItemChannel = ChannelSMS, ItemPriority = PriorityNormal\<rparr>]\<rparr>\<rparr>)
     = Got \<lparr>NotificationID = ''h'', ItemChannel = ChannelSMS, ItemPriority = PriorityHigh\<rparr>
           (New\<lparr>normal := (normal New)\<lparr>buf := [\<lparr>NotificationID = ''n'', ItemChannel = ChannelSMS, ItemPriority = PriorityNormal\<rparr>]\<rparr>\<rparr>)"
proof -
  let ?Q = "New\<lparr>high := (high New)\<lparr>buf := [\<lparr>NotificationID = ''h'', ItemChannel = ChannelSMS, ItemPriority = PriorityHigh\<rparr>]\<rparr>,
                  normal := (normal New)\<lparr>buf := [\<lparr>NotificationID = ''n'', ItemChannel = ChannelSMS, ItemPriority = PriorityNormal\<rparr>]\<rparr>\<rparr>"
  have ne: "buf (high ?Q) \<noteq> []" by simp
  from Dequeue_high_first [OF ne, of True 1] ne show ?thesis
    by (simp add: New_def make_chan_def)
qed

section \<open>Properties of the repository\<close>

lemma pg_MarkFailed_row:
  "map_of rows nid = Some n \<Longrightarrow>
   map_of (snd (pg_MarkFailed now rows nid e)) nid =
     Some (n\<lparr>Status := StatusFailed, ErrorMessage := Some e, NextRetryAt := None, UpdatedAt := now\<rparr>)"
  by (induction rows) (auto simp: pg_MarkFailed_def split: if_splits)

text \<open>
  \<open>range_order\<close> only reorders, and every reordering is one of its results.
\<close>

lemma mset_range_order: "mset (range_order picks xs) = mset xs"
proof (induction picks xs rule: range_order.induct)
  case (1 picks)
  show ?case by simp
next
  case (2 x xs)
  show ?case by simp
next
  case (3 p picks x xs)
  let ?ys = "x # xs"
  let ?i = "p mod length ?ys"
  have i: "?i < length ?ys" by simp
  have "mset (range_order (p # picks) ?ys) =
        add_mset (?ys ! ?i) (mset (take ?i ?ys @ drop (Suc ?i) ?ys))"
    using "3.IH" [of ?i] by (simp add: Let_def)
  also have "\<dots> = mset (take ?i ?ys @ ?ys ! ?i # drop (Suc ?i) ?ys)"
    by simp
  also have "\<dots> = mset ?ys"
    using id_take_nth_drop [OF i] by simp
  finally show ?case .
qed

lemma range_order_covers: "mset ys = mset xs \<Longrightarrow> \<exists>picks. range_order picks xs = ys"
proof (induction ys arbitrary: xs)
  case Nil
  then have "xs = []" by simp
  then show ?case by simp
next
  case (Cons y ys)
  have "y \<in># mset (y # ys)" by simp
  then have "y \<in># mset xs" by (simp only: Cons.prems)
  then have "y \<in> set xs" by simp
  then obtain i where i: "i < length xs" and y: "xs ! i = y"
    by (auto simp: in_set_conv_nth)
  define a where "a = take i xs"
  define b where "b = drop (Suc i) xs"
  have split: "xs = a @ y # b"
    using id_take_nth_drop [OF i] unfolding y a_def b_def .
  have "add_mset y (mset ys) = add_mset y (mset (a @ b))"
    using Cons.prems by (simp add: split)
  then have "mset ys = mset (a @ b)" by simp
  from Cons.IH [OF this] obtain picks where rest: "range_order picks (a @ b) = ys" by blast
  from i obtain x xs' where xs: "xs = x # xs'" by (cases xs) auto
  have "range_order (i # picks) (x # xs') =
          (x # xs') ! i # range_order picks (take i (x # xs') @ drop (Suc i) (x # xs'))"
    using i by (simp add: Let_def xs)
  also have "\<dots> = y # range_order picks (a @ b)"
    using y by (simp add: a_def b_def xs)
  finally have "range_order (i # picks) xs = y # ys"
    by (simp add: rest xs)
  then show ?case by blast
qed

text \<open>
  C10. For an id that is not a key of the map, \<open>UpdateStatus\<close>, \<open>MarkSent\<close>,
  \<open>MarkFailed\<close>, \<open>ScheduleRetry\<close> and \<open>Cancel\<close> of the in-memory repository all return
  \<open>nil\<close>, not \<open>ErrNotFound\<close>, and the repository is exactly as before.
\<close>

theorem Mock_mutations_absent_id:
  assumes "map_of (notifications m) nid = None"
  shows "Mock_UpdateStatus m nid status = (None, m) \<and>
         Mock_MarkSent m nid providerMsgID sentAt = (None, m) \<and>
         Mock_MarkFailed m nid errMsg = (None, m) \<and>
         Mock_ScheduleRetry m nid retryCount nextRetry errMsg = (None, m) \<and>
         Mock_Cancel m nid = (None, m)"
  using assms
  by (simp add: Mock_UpdateStatus_def Mock_MarkSent_def Mock_MarkFailed_def
        Mock_ScheduleRetry_def Mock_Cancel_def)

theorem Mock_mutations_absent_id_witness:
  "map_of (notifications NewMockNotificationRepository) ''nonexistent-id'' = None \<and>
   Mock_UpdateStatus NewMockNotificationRepository ''nonexistent-id'' StatusQueued
     = (None, NewMockNotificationRepository) \<and>
   Mock_MarkSent NewMockNotificationRepository ''nonexistent-id'' ''abc'' 7
     = (None, NewMockNotificationRepository) \<and>
   Mock_MarkFailed NewMockNotificationRepository ''nonexistent-id'' ''boom''
     = (None, NewMockNotificationRepository) \<and>
   Mock_ScheduleRetry NewMockNotificationRepository ''nonexistent-id'' 1 12 ''boom''
     = (None, NewMockNotificationRepository) \<and>
   Mock_Cancel NewMockNotificationRepository ''nonexistent-id''
     = (None, NewMockNotificationRepository)"
proof -
  have absent: "map_of (notifications NewMockNotificationRepository) ''nonexistent-id'' = None"
    by (simp add: NewMockNotificationRepository_def)
  from Mock_mutations_absent_id [OF absent, of StatusQueued "''abc''" 7 "''boom''" 1 12] absent
  show ?thesis by simp
qed

text \<open>
  C8. The in-memory \<open>MarkFailed\<close> sets the status and the error message and nothing
  else, whereas the PostgreSQL one also sets \<open>next_retry_at = NULL\<close>
  (\<open>pg_MarkFailed_row\<close>). A notification whose third retry was scheduled for time 155
  and whose retries are used up (\<open>RetryCount = MaxRetries = 3\<close>) fails once more:
  \<open>handleFailure\<close> calls \<open>MarkFailed\<close>, and the row ends with status failed,
  the new error message, and \<open>NextRetryAt\<close> still 155.
\<close>

theorem Mock_MarkFailed_keeps_NextRetryAt:
  "handleFailure [5, 30, 120] 500
     (NewMockNotificationRepository\<lparr>notifications :=
        [(''n1'', (buildNotification 0 ''n1'' validReq [] None)
                    \<lparr>Status := StatusProcessing, RetryCount := 3, NextRetryAt := Some 155,
                      ErrorMessage := Some ''third failure''\<rparr>)]\<rparr>)
     ((buildNotification 0 ''n1'' validReq [] None)
        \<lparr>Status := StatusQueued, RetryCount := 3, NextRetryAt := Some 155,
          ErrorMessage := Some ''third failure''\<rparr>)
     ''fourth failure''
   = Inr (snd (Mock_MarkFailed
        (NewMockNotificationRepository\<lparr>notifications :=
           [(''n1'', (buildNotification 0 ''n1'' validReq [] None)
                       \<lparr>Status := StatusProcessing, RetryCount := 3, NextRetryAt := Some 155,
                         ErrorMessage := Some ''third failure''\<rparr>)]\<rparr>)
        ''n1'' ''fourth failure'')) \<and>
   map_of (notifications (snd (Mock_MarkFailed
        (NewMockNotificationRepository\<lparr>notifications :=
           [(''n1'', (buildNotification 0 ''n1'' validReq [] None)
                       \<lparr>Status := StatusProcessing, RetryCount := 3, NextRetryAt := Some 155,
                         ErrorMessage := Some ''third failure''\<rparr>)]\<rparr>)
        ''n1'' ''fourth failure''))) ''n1''
   = Some ((buildNotification 0 ''n1'' validReq [] None)
             \<lparr>Status := StatusFailed, RetryCount := 3, NextRetryAt := Some 155,
               ErrorMessage := Some ''fourth failure''\<rparr>)"
  by (simp add: handleFailure_def Mock_MarkFailed_def NewMockNotificationRepository_def
        buildNotification_def validReq_def)

section \<open>Properties of the worker\<close>

lemma map_of_update_same: "map_of (AList.update k v al) k = Some v"
  by (simp add: update_conv')


text \<open>
  C2. A notification with retry count \<open>r \<ge> 0\<close> whose send failed, under a non-empty
  backoff sequence \<open>B\<close> (the configuration always builds three entries): when
  \<open>r \<ge> MaxRetries\<close> the worker's whole effect is the call
  \<open>MarkFailed(id, err)\<close>; otherwise it is the call
  \<open>ScheduleRetry(id, r + 1, now + B[min(r, len(B) - 1)], err)\<close>, so the last entry of
  \<open>B\<close> serves every retry count beyond its length. In neither case does the index
  leave the slice. For a row stored under that id the outcome is spelled out: status
  failed with the error message in the first case, and in the second also the retry
  count \<open>r + 1\<close> and that retry time.
\<close>

theorem handleFailure_retry_policy:
  assumes "backoff \<noteq> []" and "0 \<le> RetryCount n"
  shows "handleFailure backoff now m n sendErr =
           (if RetryCount n \<ge> MaxRetries n
            then Inr (snd (Mock_MarkFailed m (ID n) sendErr))
            else Inr (snd (Mock_ScheduleRetry m (ID n) (RetryCount n + 1)
                             (now + backoff ! min (nat (RetryCount n)) (length backoff - 1))
                             sendErr))) \<and>
         (\<forall>row. map_of (notifications m) (ID n) = Some row \<longrightarrow>
            (\<exists>m'. handleFailure backoff now m n sendErr = Inr m' \<and>
                  map_of (notifications m') (ID n) =
                    Some (if RetryCount n \<ge> MaxRetries n
                          then row\<lparr>Status := StatusFailed, ErrorMessage := Some sendErr\<rparr>
                          else row\<lparr>RetryCount := RetryCount n + 1,
                                   NextRetryAt := Some (now + backoff ! min (nat (RetryCount n))
                                                                           (length backoff - 1)),
                                   ErrorMessage := Some sendErr,
                                   Status := StatusFailed\<rparr>)))"
proof -
  let ?r = "RetryCount n"
  let ?idx = "if ?r \<ge> int (length backoff) then int (length backoff) - 1 else ?r"
  from assms have len: "0 < length backoff" by simp
  have in_range: "\<not> (?idx < 0 \<or> ?idx \<ge> int (length backoff))"
    using assms(2) len by auto
  have idx: "nat ?idx = min (nat ?r) (length backoff - 1)"
    using assms(2) len by (auto simp: min_def)
  have eq: "handleFailure backoff now m n sendErr =
           (if ?r \<ge> MaxRetries n
            then Inr (snd (Mock_MarkFailed m (ID n) sendErr))
            else Inr (snd (Mock_ScheduleRetry m (ID n) (?r + 1)
                             (now + backoff ! min (nat ?r) (length backoff - 1)) sendErr)))"
    unfolding handleFailure_def Let_def using in_range idx by simp
  show ?thesis
    unfolding eq
    by (simp add: Mock_MarkFailed_def Mock_ScheduleRetry_def map_of_update_same)
qed

theorem handleFailure_retry_policy_witness:
  "[5, 30, 120] \<noteq> ([] :: Duration list) \<and>
   0 \<le> RetryCount ((buildNotification 0 ''n1'' validReq [] None)\<lparr>RetryCount := 4, MaxRetries := 6\<rparr>) \<and>
   handleFailure [5, 30, 120] 1000
     (NewMockNotificationRepository\<lparr>notifications :=
        [(''n1'', (buildNotification 0 ''n1'' validReq [] None)
                    \<lparr>Status := StatusProcessing, RetryCount := 4, MaxRetries := 6\<rparr>)]\<rparr>)
     ((buildNotification 0 ''n1'' validReq [] None)\<lparr>RetryCount := 4, MaxRetries := 6\<rparr>)
     ''provider down''
   = Inr (NewMockNotificationRepository\<lparr>notifications :=
        [(''n1'', (buildNotification 0 ''n1'' validReq [] None)
                    \<lparr>Status := StatusFailed, RetryCount := 5, MaxRetries := 6,
                      NextRetryAt := Some 1120, ErrorMessage := Some ''provider down''\<rparr>)]\<rparr>)"
proof -
  let ?n = "(buildNotification 0 ''n1'' validReq [] None)\<lparr>RetryCount := 4, MaxRetries := 6\<rparr>"
  have b: "[5, 30, 120] \<noteq> ([] :: Duration list)" by simp
  have r: "0 \<le> RetryCount ?n" by simp
  from handleFailure_retry_policy [OF b r, of 1000 _ "''provider down''"] b r
  show ?thesis
    by (simp add: Mock_ScheduleRetry_def NewMockNotificationRepository_def
          buildNotification_def validReq_def)
qed

section \<open>Properties of the service\<close>

text \<open>
  \<open>Cancel\<close> with no other goroutine in its gap, for a notification stored under the id
  (and a repository whose \<open>GetByID\<close> is not overridden to fail): if its status is
  pending, queued, scheduled or failed, \<open>Cancel\<close> returns \<open>nil\<close> and the row is the
  old one with status cancelled; a worker that processes a queue item carrying this id on
  the repository that \<open>Cancel\<close> left returns with the repository as it found it and
  without a call of the provider. If its status is processing or sent, \<open>Cancel\<close>
  returns \<open>ErrNotCancellable\<close>, if it is cancelled, \<open>ErrAlreadyCancelled\<close>, and in both
  cases repository and queue are untouched.
\<close>

lemma Cancel_uninterrupted:
  assumes "GetByIDErr (repo s) = None"
      and "map_of (notifications (repo s)) nid = Some n"
  shows "(Status n = StatusPending \<or> Status n = StatusQueued \<or> Status n = StatusScheduled \<or>
          Status n = StatusFailed \<longrightarrow>
            Cancel s nid =
              (None, s\<lparr>repo := (repo s)\<lparr>notifications :=
                          AList.update nid (n\<lparr>Status := StatusCancelled\<rparr>) (notifications (repo s))\<rparr>\<rparr>) \<and>
            map_of (notifications (repo (snd (Cancel s nid)))) nid = Some (n\<lparr>Status := StatusCancelled\<rparr>) \<and>
            (\<forall>backoff send wait_err now item.
               NotificationID item = nid \<longrightarrow>
                 process backoff send wait_err now (repo (snd (Cancel s nid))) item =
                   Inr (repo (snd (Cancel s nid)), []))) \<and>
         (Status n = StatusProcessing \<or> Status n = StatusSent \<longrightarrow>
            Cancel s nid = (Some ErrNotCancellable, s)) \<and>
         (Status n = StatusCancelled \<longrightarrow>
            Cancel s nid = (Some ErrAlreadyCancelled, s))"
proof -
  have get: "Mock_GetByID (repo s) nid = Inr n"
    using assms by (simp add: Mock_GetByID_def)
  let ?s' = "s\<lparr>repo := (repo s)\<lparr>notifications :=
                 AList.update nid (n\<lparr>Status := StatusCancelled\<rparr>) (notifications (repo s))\<rparr>\<rparr>"
  have get': "Mock_GetByID (repo ?s') nid = Inr (n\<lparr>Status := StatusCancelled\<rparr>)"
    using assms(1) by (simp add: Mock_GetByID_def map_of_update_same)
  have skip: "process backoff send wait_err now (repo ?s') item = Inr (repo ?s', [])"
    if "NotificationID item = nid" for backoff send wait_err now item
    unfolding process_def using that get' by simp
  have ok: "Cancel s nid = (None, ?s')"
    if "Status n = StatusPending \<or> Status n = StatusQueued \<or> Status n = StatusScheduled \<or>
        Status n = StatusFailed"
    unfolding Cancel_def using that get assms(2) by (auto simp: Mock_Cancel_def)
  have no: "Cancel s nid = (Some ErrNotCancellable, s)"
    if "Status n = StatusProcessing \<or> Status n = StatusSent"
    unfolding Cancel_def using that get by auto
  have already: "Cancel s nid = (Some ErrAlreadyCancelled, s)" if "Status n = StatusCancelled"
    unfolding Cancel_def using that get by simp
  show ?thesis
    using ok no already skip by (simp add: map_of_update_same)
qed

text \<open>
  C4. The first half of the claim fails on the code. \<open>enqueue\<close> writes status queued
  after \<open>Enqueue\<close> without reading the row, so a \<open>Cancel\<close> that runs between the two
  calls is undone. A client creates the test notification; after \<open>Create\<close> has stored
  the row (pending) and put its item on the queue, \<open>Cancel\<close> of that id runs and
  returns \<open>nil\<close>, the row being cancelled; then \<open>Create\<close> goes on and writes queued.
  The worker that dequeues the item finds status queued, hands the notification to the
  provider, and the row ends as sent: the cancel that succeeded has not prevented the
  dispatch, although \<open>process\<close> is written to skip a notification cancelled between
  enqueue and processing.
\<close>

theorem Cancel_undone_by_enqueue:
  "Create_among (\<lambda>s. s) (\<lambda>s. s) (\<lambda>s. snd (Cancel s ''n1'')) 10 ''n1''
     \<lparr>repo = NewMockNotificationRepository, q = New\<rparr> validReq []
   = (Inr ((buildNotification 10 ''n1'' validReq [] None)\<lparr>Status := StatusQueued\<rparr>, False),
      \<lparr>repo = NewMockNotificationRepository\<lparr>notifications :=
                [(''n1'', (buildNotification 10 ''n1'' validReq [] None)\<lparr>Status := StatusQueued\<rparr>)]\<rparr>,
       q = New\<lparr>normal := (normal New)\<lparr>buf :=
             [\<lparr>NotificationID = ''n1'', ItemChannel = ChannelSMS, ItemPriority = PriorityNormal\<rparr>]\<rparr>\<rparr>\<rparr>) \<and>
   Cancel
     \<lparr>repo = NewMockNotificationRepository\<lparr>notifications :=
               [(''n1'', buildNotification 10 ''n1'' validReq [] None)]\<rparr>,
      q = New\<lparr>normal := (normal New)\<lparr>buf :=
            [\<lparr>NotificationID = ''n1'', ItemChannel = ChannelSMS, ItemPriority = PriorityNormal\<rparr>]\<rparr>\<rparr>\<rparr>
     ''n1''
   = (None,
      \<lparr>repo = NewMockNotificationRepository\<lparr>notifications :=
                [(''n1'', (buildNotification 10 ''n1'' validReq [] None)\<lparr>Status := StatusCancelled\<rparr>)]\<rparr>,
       q = New\<lparr>normal := (normal New)\<lparr>buf :=
             [\<lparr>NotificationID = ''n1'', ItemChannel = ChannelSMS, ItemPriority = PriorityNormal\<rparr>]\<rparr>\<rparr>\<rparr>) \<and>
   Dequeue False 0
     (New\<lparr>normal := (normal New)\<lparr>buf :=
            [\<lparr>NotificationID = ''n1'', ItemChannel = ChannelSMS, ItemPriority = PriorityNormal\<rparr>]\<rparr>\<rparr>)
   = Got \<lparr>NotificationID = ''n1'', ItemChannel = ChannelSMS, ItemPriority = PriorityNormal\<rparr> New \<and>
   process [5, 30, 120] (\<lambda>n. Inr ''abc'') None 20
     (NewMockNotificationRepository\<lparr>notifications :=
        [(''n1'', (buildNotification 10 ''n1'' validReq [] None)\<lparr>Status := StatusQueued\<rparr>)]\<rparr>)
     \<lparr>NotificationID = ''n1'', ItemChannel = ChannelSMS, ItemPriority = PriorityNormal\<rparr>
   = Inr (NewMockNotificationRepository\<lparr>notifications :=
            [(''n1'', (buildNotification 10 ''n1'' validReq [] None)
                        \<lparr>Status := StatusSent, ProviderMsgID := Some ''abc'', SentAt := Some 20\<rparr>)]\<rparr>,
          [(buildNotification 10 ''n1'' validReq [] None)\<lparr>Status := StatusQueued\<rparr>])"
proof (intro conjI)
  let ?n = "buildNotification 10 ''n1'' validReq [] None"
  let ?item = "\<lparr>NotificationID = ''n1'', ItemChannel = ChannelSMS, ItemPriority = PriorityNormal\<rparr>"
  let ?mid = "\<lparr>repo = NewMockNotificationRepository\<lparr>notifications := [(''n1'', ?n)]\<rparr>,
               q = New\<lparr>normal := (normal New)\<lparr>buf := [?item]\<rparr>\<rparr>\<rparr>"
  show cancel: "Cancel ?mid ''n1'' =
      (None, \<lparr>repo = NewMockNotificationRepository\<lparr>notifications :=
                 [(''n1'', ?n\<lparr>Status := StatusCancelled\<rparr>)]\<rparr>,
              q = New\<lparr>normal := (normal New)\<lparr>buf := [?item]\<rparr>\<rparr>\<rparr>)"
    by (simp add: Cancel_def Mock_GetByID_def Mock_Cancel_def NewMockNotificationRepository_def
          buildNotification_def validReq_def)
  have valid: "Validate validReq = None"
    by (simp add: Validate_def Channel_IsValid_def Priority_IsValid_def validReq_def)
  have stored: "Mock_Create NewMockNotificationRepository ?n =
                  (None, NewMockNotificationRepository\<lparr>notifications := [(''n1'', ?n)]\<rparr>)"
    by (simp add: Mock_Create_def NewMockNotificationRepository_def buildNotification_def)
  have queued: "Enqueue New \<lparr>NotificationID = ID ?n, ItemChannel = Channel ?n, ItemPriority = Priority ?n\<rparr>
                  = (None, New\<lparr>normal := (normal New)\<lparr>buf := [?item]\<rparr>\<rparr>)"
    by (simp add: Enqueue_def try_send_def New_def make_chan_def buildNotification_def validReq_def)
  have sched: "ScheduledAt ?n = None" and idn: "ID ?n = ''n1''"
    by (simp_all add: buildNotification_def validReq_def)
  have "enqueue_among (\<lambda>s. snd (Cancel s ''n1''))
          \<lparr>repo = NewMockNotificationRepository\<lparr>notifications := [(''n1'', ?n)]\<rparr>, q = New\<rparr> ?n
        = (?n\<lparr>Status := StatusQueued\<rparr>,
           \<lparr>repo = NewMockNotificationRepository\<lparr>notifications := [(''n1'', ?n\<lparr>Status := StatusQueued\<rparr>)]\<rparr>,
            q = New\<lparr>normal := (normal New)\<lparr>buf := [?item]\<rparr>\<rparr>\<rparr>)"
    using queued cancel sched idn
    by (simp add: enqueue_among_def Let_def Mock_UpdateStatus_def)
  then show "Create_among (\<lambda>s. s) (\<lambda>s. s) (\<lambda>s. snd (Cancel s ''n1'')) 10 ''n1''
               \<lparr>repo = NewMockNotificationRepository, q = New\<rparr> validReq []
             = (Inr (?n\<lparr>Status := StatusQueued\<rparr>, False),
                \<lparr>repo = NewMockNotificationRepository\<lparr>notifications :=
                          [(''n1'', ?n\<lparr>Status := StatusQueued\<rparr>)]\<rparr>,
                 q = New\<lparr>normal := (normal New)\<lparr>buf := [?item]\<rparr>\<rparr>\<rparr>)"
    using valid stored by (simp add: Create_among_def Let_def)
  show "Dequeue False 0 (New\<lparr>normal := (normal New)\<lparr>buf := [?item]\<rparr>\<rparr>) = Got ?item New"
    by (simp add: Dequeue_def select_ready_def try_recv_def New_def make_chan_def)
  show "process [5, 30, 120] (\<lambda>n. Inr ''abc'') None 20
          (NewMockNotificationRepository\<lparr>notifications := [(''n1'', ?n\<lparr>Status := StatusQueued\<rparr>)]\<rparr>) ?item
        = Inr (NewMockNotificationRepository\<lparr>notifications :=
                 [(''n1'', ?n\<lparr>Status := StatusSent, ProviderMsgID := Some ''abc'', SentAt := Some 20\<rparr>)]\<rparr>,
               [?n\<lparr>Status := StatusQueued\<rparr>])"
    by (simp add: process_def Mock_GetByID_def Mock_UpdateStatus_def Mock_MarkSent_def
          NewMockNotificationRepository_def buildNotification_def)
qed



lemma key_absent_find:
  "key_absent m key \<Longrightarrow> find (\<lambda>(k, n). IdempotencyKey n = Some key) (notifications m) = None"
  by (auto simp: key_absent_def list_ex_iff find_None_iff)

lemma key_absent_no_conflict:
  "key_absent m key \<Longrightarrow>
   \<not> list_ex (\<lambda>(k, existing). IdempotencyKey existing \<noteq> None \<and> IdempotencyKey existing = Some key)
        (notifications m)"
  by (auto simp: key_absent_def list_ex_iff)

lemma Enqueue_saturated:
  assumes "(ItemPriority item = PriorityHigh \<and> saturated (high pq)) \<or>
           (ItemPriority item = PriorityNormal \<and> saturated (normal pq)) \<or>
           (ItemPriority item = PriorityLow \<and> saturated (low pq))"
  shows "Enqueue pq item = (Some ErrQueueFull, pq)"
  using assms by (auto simp: Enqueue_def try_send_def saturated_def)

lemma Create_new_row:
  assumes "Validate req = None"
      and "CreateErr (repo s) = None"
      and "GetByIdempotencyKeyErr (repo s) = None"
      and "key = [] \<or> key_absent (repo s) key"
  shows "Create now uuid s req key =
           (case enqueue (s\<lparr>repo := (repo s)\<lparr>notifications :=
                     AList.update uuid (buildNotification now uuid req key None)
                       (notifications (repo s))\<rparr>\<rparr>)
                   (buildNotification now uuid req key None) of
              (n', s') \<Rightarrow> (Inr (n', False), s'))"
proof -
  let ?n = "buildNotification now uuid req key None"
  have idn: "ID ?n = uuid" and keyn: "IdempotencyKey ?n = (if key \<noteq> [] then Some key else None)"
    by (simp_all add: buildNotification_def)
  have lookup: "key \<noteq> [] \<Longrightarrow> Mock_GetByIdempotencyKey (repo s) key = Inl ErrNotFound"
    using assms(3,4) by (simp add: Mock_GetByIdempotencyKey_def key_absent_find)
  have store: "Mock_Create (repo s) ?n =
                 (None, (repo s)\<lparr>notifications := AList.update uuid ?n (notifications (repo s))\<rparr>)"
    using assms(2,4) key_absent_no_conflict [of "repo s" key]
    by (auto simp: Mock_Create_def idn keyn)
  show ?thesis
    unfolding Create_def using assms(1) lookup store
    by (cases "key = []") (simp_all add: Let_def)
qed

text \<open>
  C7, as the code has it. A valid, unscheduled request whose priority tier is full (on a
  repository without error overrides, the key empty or not yet stored): \<open>Create\<close>
  returns the new notification with \<open>duplicate = false\<close> and no error, the row is
  stored with status pending, and the queue is unchanged. The \<open>ErrQueueFull\<close> of
  \<open>Enqueue\<close> ends in the log of \<open>enqueue\<close>; \<open>mapError\<close> would turn it into 503, but
  it never receives it from \<open>Create\<close>.
\<close>

theorem Create_queue_full_not_surfaced:
  assumes "Validate req = None"
      and "ReqScheduledAt req = None"
      and "CreateErr (repo s) = None"
      and "GetByIdempotencyKeyErr (repo s) = None"
      and "key = [] \<or> key_absent (repo s) key"
      and "(ReqPriority req = PriorityHigh \<and> saturated (high (q s))) \<or>
           (ReqPriority req = PriorityNormal \<and> saturated (normal (q s))) \<or>
           (ReqPriority req = PriorityLow \<and> saturated (low (q s)))"
  shows "Create now uuid s req key =
           (Inr (buildNotification now uuid req key None, False),
            s\<lparr>repo := (repo s)\<lparr>notifications :=
                 AList.update uuid (buildNotification now uuid req key None)
                   (notifications (repo s))\<rparr>\<rparr>) \<and>
         Status (buildNotification now uuid req key None) = StatusPending \<and>
         mapError ErrQueueFull = 503"
proof -
  let ?n = "buildNotification now uuid req key None"
  let ?s1 = "s\<lparr>repo := (repo s)\<lparr>notifications := AList.update uuid ?n (notifications (repo s))\<rparr>\<rparr>"
  have fields: "ScheduledAt ?n = None" "Priority ?n = ReqPriority req" "Status ?n = StatusPending"
    using assms(2) by (simp_all add: buildNotification_def)
  have "Enqueue (q ?s1) \<lparr>NotificationID = ID ?n, ItemChannel = Channel ?n, ItemPriority = Priority ?n\<rparr>
          = (Some ErrQueueFull, q ?s1)"
    by (rule Enqueue_saturated) (use assms(6) fields(2) in simp)
  then have "enqueue ?s1 ?n = (?n, ?s1)"
    by (simp add: enqueue_def fields(1))
  with Create_new_row [OF assms(1,3,4,5), of now uuid] fields(3)
  show ?thesis by (simp add: mapError_def)
qed

theorem Create_queue_full_not_surfaced_witness:
  "Validate validReq = None \<and>
   saturated (normal (New\<lparr>normal := (normal New)\<lparr>buf :=
            replicate 5000 \<lparr>NotificationID = ''x'', ItemChannel = ChannelSMS, ItemPriority = PriorityNormal\<rparr>\<rparr>\<rparr>)) \<and>
   fst (Create 10 ''u1''
     \<lparr>repo = NewMockNotificationRepository,
      q = New\<lparr>normal := (normal New)\<lparr>buf :=
            replicate 5000 \<lparr>NotificationID = ''x'', ItemChannel = ChannelSMS, ItemPriority = PriorityNormal\<rparr>\<rparr>\<rparr>\<rparr>
     validReq [])
   = Inr (buildNotification 10 ''u1'' validReq [] None, False) \<and>
   Status (buildNotification 10 ''u1'' validReq [] None) = StatusPending"
proof -
  let ?s = "\<lparr>repo = NewMockNotificationRepository,
      q = New\<lparr>normal := (normal New)\<lparr>buf :=
            replicate 5000 \<lparr>NotificationID = ''x'', ItemChannel = ChannelSMS, ItemPriority = PriorityNormal\<rparr>\<rparr>\<rparr>\<rparr>"
  have v: "Validate validReq = None"
    by (simp add: Validate_def Channel_IsValid_def Priority_IsValid_def validReq_def)
  have sch: "ReqScheduledAt validReq = None" by (simp add: validReq_def)
  have ce: "CreateErr (repo ?s) = None" and ge: "GetByIdempotencyKeyErr (repo ?s) = None"
    by (simp_all add: NewMockNotificationRepository_def)
  have k: "[] = ([] :: string) \<or> key_absent (repo ?s) []" by simp
  have sat: "saturated (normal (q ?s))"
    by (simp add: saturated_def New_def make_chan_def)
  then have full: "(ReqPriority validReq = PriorityHigh \<and> saturated (high (q ?s))) \<or>
           (ReqPriority validReq = PriorityNormal \<and> saturated (normal (q ?s))) \<or>
           (ReqPriority validReq = PriorityLow \<and> saturated (low (q ?s)))"
    by (simp add: validReq_def)
  from Create_queue_full_not_surfaced [OF v sch ce ge k full, of 10 "''u1''"] v sat
  show ?thesis by simp
qed

text \<open>
  C7 as stated fails: with 5000 items in the normal tier, \<open>Create\<close> of the normal
  priority test request returns the notification and no error.
\<close>

theorem Create_queue_full_counterexample:
  "Create 10 ''u1''
     \<lparr>repo = NewMockNotificationRepository,
      q = New\<lparr>normal := (normal New)\<lparr>buf :=
            replicate 5000 \<lparr>NotificationID = ''x'', ItemChannel = ChannelSMS, ItemPriority = PriorityNormal\<rparr>\<rparr>\<rparr>\<rparr>
     validReq []
   = (Inr ((buildNotification 10 ''u1'' validReq [] None)\<lparr>Status := StatusPending\<rparr>, False),
      \<lparr>repo = NewMockNotificationRepository\<lparr>notifications :=
                [(''u1'', (buildNotification 10 ''u1'' validReq [] None)\<lparr>Status := StatusPending\<rparr>)]\<rparr>,
       q = New\<lparr>normal := (normal New)\<lparr>buf :=
            replicate 5000 \<lparr>NotificationID = ''x'', ItemChannel = ChannelSMS, ItemPriority = PriorityNormal\<rparr>\<rparr>\<rparr>\<rparr>)"
  by (simp add: Create_def Validate_def Channel_IsValid_def Priority_IsValid_def validReq_def
        buildNotification_def Mock_Create_def NewMockNotificationRepository_def enqueue_def
        Enqueue_def try_send_def New_def make_chan_def Let_def)





lemma build_items_IDs:
  "build_items now b gen i reqs = Inr ns \<Longrightarrow>
   map ID ns = map (\<lambda>j. gen (Suc (i + j))) [0..<length reqs]"
proof (induction reqs arbitrary: i ns)
  case Nil
  then show ?case by simp
next
  case (Cons r rs)
  from Cons.prems obtain ns' where
    rest: "build_items now b gen (Suc i) rs = Inr ns'" and
    ns: "ns = (buildNotification now (gen (Suc i)) r [] (Some b))\<lparr>CreatedAt := now, UpdatedAt := now\<rparr> # ns'"
    by (auto split: option.splits sum.splits)
  have "map ID ns' = map (\<lambda>j. gen (Suc (Suc i + j))) [0..<length rs]"
    by (rule Cons.IH [OF rest])
  then show ?case
    by (simp add: ns buildNotification_def map_upt_Suc del: upt_Suc)
qed


text \<open>With nothing happening in the gaps, the calls are those of the service section.\<close>

lemma enqueue_among_alone: "enqueue_among (\<lambda>s. s) s n = enqueue s n"
  by (simp add: enqueue_among_def enqueue_def Let_def split: prod.splits option.splits)

lemma Create_among_alone:
  "Create_among (\<lambda>s. s) (\<lambda>s. s) (\<lambda>s. s) now uuid s req key = Create now uuid s req key"
  by (simp add: Create_among_def Create_def enqueue_among_alone Let_def
        split: option.splits sum.splits prod.splits)

lemma enqueue_all_among_alone: "enqueue_all_among (\<lambda>k s. s) k s ns = enqueue_all s ns"
  by (induction ns arbitrary: s k) (simp_all add: enqueue_among_alone)

lemma CreateBatch_among_alone:
  "CreateBatch_among (\<lambda>s. s) (\<lambda>k s. s) now gen created updated s reqs =
   CreateBatch now gen created updated s reqs"
  by (simp add: CreateBatch_among_def CreateBatch_def enqueue_all_among_alone Let_def
        split: sum.splits prod.splits)

lemma Cancel_among_alone: "Cancel_among (\<lambda>s. s) s nid = Cancel s nid"
  by (simp add: Cancel_among_def Cancel_def)



















lemma find_as_filter: "find P xs = (case filter P xs of [] \<Rightarrow> None | x # _ \<Rightarrow> Some x)"
  by (induction xs) simp_all

lemma mset_single_list: "mset zs = {#y#} \<Longrightarrow> zs = [y]"
  by (cases zs) auto

lemma first_match_any_order:
  assumes "length (filter P xs) \<le> 1"
  shows "find P (range_order picks xs) = find P xs"
proof -
  have same: "mset (filter P (range_order picks xs)) = mset (filter P xs)"
    by (simp add: mset_range_order)
  have "filter P (range_order picks xs) = filter P xs"
  proof (cases "filter P xs")
    case Nil
    with same show ?thesis by simp
  next
    case (Cons y ys)
    with assms have "ys = []" by simp
    with same Cons have "mset (filter P (range_order picks xs)) = {#y#}" by simp
    then have "filter P (range_order picks xs) = [y]" by (rule mset_single_list)
    with Cons \<open>ys = []\<close> show ?thesis by simp
  qed
  then show ?thesis by (simp add: find_as_filter)
qed

lemma filter_update_new:
  "filter P al = [] \<Longrightarrow> P (k, v) \<Longrightarrow> filter P (AList.update k v al) = [(k, v)]"
  by (induction al) (auto split: if_splits)

lemma key_absent_filter:
  "key_absent m key \<longleftrightarrow> filter (\<lambda>(k, n). IdempotencyKey n = Some key) (notifications m) = []"
  by (auto simp: key_absent_def list_ex_iff filter_empty_conv)

lemma enqueue_stored:
  assumes "notifications (repo s) = AList.update (ID n) n al"
  shows "\<exists>n' q'. enqueue s n =
             (n', s\<lparr>repo := (repo s)\<lparr>notifications := AList.update (ID n) n' al\<rparr>, q := q'\<rparr>) \<and>
           IdempotencyKey n' = IdempotencyKey n \<and> ID n' = ID n"
proof (cases "ScheduledAt n \<noteq> None")
  case True
  then have "enqueue s n = (n, s)" by (simp add: enqueue_def)
  moreover have "s = s\<lparr>repo := (repo s)\<lparr>notifications := AList.update (ID n) n al\<rparr>, q := q s\<rparr>"
    using assms [symmetric] by simp
  ultimately show ?thesis by metis
next
  case False
  let ?item = "\<lparr>NotificationID = ID n, ItemChannel = Channel n, ItemPriority = Priority n\<rparr>"
  obtain e q' where enq: "Enqueue (q s) ?item = (e, q')" by (cases "Enqueue (q s) ?item")
  show ?thesis
  proof (cases e)
    case None
    have upd: "Mock_UpdateStatus (repo s) (ID n) StatusQueued =
                 (None, (repo s)\<lparr>notifications := AList.update (ID n) (n\<lparr>Status := StatusQueued\<rparr>) al\<rparr>)"
      by (simp add: Mock_UpdateStatus_def assms map_of_update_same)
    have "enqueue s n =
            (n\<lparr>Status := StatusQueued\<rparr>,
             s\<lparr>repo := (repo s)\<lparr>notifications := AList.update (ID n) (n\<lparr>Status := StatusQueued\<rparr>) al\<rparr>,
               q := q'\<rparr>)"
      using False enq None upd by (simp add: enqueue_def)
    then show ?thesis by (intro exI [of _ "n\<lparr>Status := StatusQueued\<rparr>"] exI [of _ q']) simp
  next
    case (Some err)
    have "enqueue s n = (n, s\<lparr>q := q'\<rparr>)"
      using False enq Some by (simp add: enqueue_def)
    moreover have "s\<lparr>q := q'\<rparr> =
        s\<lparr>repo := (repo s)\<lparr>notifications := AList.update (ID n) n al\<rparr>, q := q'\<rparr>"
      using assms [symmetric] by simp
    ultimately show ?thesis by (intro exI [of _ n] exI [of _ q']) simp
  qed
qed

lemma Create_first:
  assumes "Validate req = None"
      and "CreateErr (repo s) = None"
      and "GetByIdempotencyKeyErr (repo s) = None"
      and "key \<noteq> []"
      and "key_absent (repo s) key"
  shows "\<exists>n s1. Create now uuid s req key = (Inr (n, False), s1) \<and> ID n = uuid \<and>
           IdempotencyKey n = Some key \<and>
           GetByIdempotencyKeyErr (repo s1) = None \<and>
           filter (\<lambda>(k, x). IdempotencyKey x = Some key) (notifications (repo s1)) = [(uuid, n)]"
proof -
  let ?n = "buildNotification now uuid req key None"
  let ?s0 = "s\<lparr>repo := (repo s)\<lparr>notifications := AList.update uuid ?n (notifications (repo s))\<rparr>\<rparr>"
  have idn: "ID ?n = uuid" and keyn: "IdempotencyKey ?n = Some key"
    using assms(4) by (simp_all add: buildNotification_def)
  have "notifications (repo ?s0) = AList.update (ID ?n) ?n (notifications (repo s))"
    by (simp add: idn)
  from enqueue_stored [OF this] obtain n' q' where
    enq: "enqueue ?s0 ?n =
            (n', ?s0\<lparr>repo := (repo ?s0)\<lparr>notifications := AList.update (ID ?n) n' (notifications (repo s))\<rparr>,
                    q := q'\<rparr>)"
    and keep: "IdempotencyKey n' = IdempotencyKey ?n" "ID n' = ID ?n"
    by blast
  let ?s1 = "?s0\<lparr>repo := (repo ?s0)\<lparr>notifications := AList.update (ID ?n) n' (notifications (repo s))\<rparr>,
                 q := q'\<rparr>"
  have create: "Create now uuid s req key = (Inr (n', False), ?s1)"
    using Create_new_row [OF assms(1,2,3), of key now uuid] assms(5) enq by simp
  have none: "filter (\<lambda>(k, x). IdempotencyKey x = Some key) (notifications (repo s)) = []"
    using assms(5) by (simp add: key_absent_filter)
  have one: "filter (\<lambda>(k, x). IdempotencyKey x = Some key) (notifications (repo ?s1)) = [(uuid, n')]"
    using filter_update_new [OF none, of uuid n'] keep keyn idn by simp
  show ?thesis
    using create one keep keyn idn assms(3) by (intro exI [of _ n'] exI [of _ ?s1]) simp
qed

lemma Create_duplicate:
  assumes "Validate req = None"
      and "GetByIdempotencyKeyErr (repo s) = None"
      and "key \<noteq> []"
      and "filter (\<lambda>(k, x). IdempotencyKey x = Some key) (notifications (repo s)) = (k, n) # rest"
  shows "Create now uuid s req key = (Inr (n, True), s)"
proof -
  have "Mock_GetByIdempotencyKey (repo s) key = Inr n"
    using assms(2,4) by (simp add: Mock_GetByIdempotencyKey_def find_as_filter)
  then show ?thesis
    using assms(1,3) by (simp add: Create_def)
qed

lemma Create_many_duplicates:
  assumes "GetByIdempotencyKeyErr (repo s) = None"
      and "key \<noteq> []"
      and "filter (\<lambda>(k, x). IdempotencyKey x = Some key) (notifications (repo s)) = (k, n) # rest"
      and "list_all (\<lambda>(now, uuid, req). Validate req = None) calls"
  shows "Create_many s key calls = (map (\<lambda>c. Inr (n, True)) calls, s)"
  using assms(4)
proof (induction calls)
  case Nil
  then show ?case by simp
next
  case (Cons c calls)
  obtain now uuid req where c: "c = (now, uuid, req)" by (cases c)
  with Cons.prems have "Validate req = None" by simp
  from Create_duplicate [OF this assms(1,2,3)] Cons c show ?case by simp
qed

text \<open>
  C5. Take a non-empty idempotency key, a repository without error overrides in which
  at most one row carries the key, and any number of \<open>Create\<close> calls with that key,
  each with a valid body of its own. Then the first call succeeds with some
  notification \<open>n\<close>; it is flagged as a duplicate exactly when a row with the key was
  there already, and otherwise \<open>n\<close> has the uuid that call drew. Every later call
  returns the same \<open>n\<close> with the duplicate flag set, and afterwards the rows carrying the
  key are \<open>n\<close> and nothing else.
\<close>

theorem Create_idempotent:
  assumes "key \<noteq> []"
      and "CreateErr (repo s) = None"
      and "GetByIdempotencyKeyErr (repo s) = None"
      and "length (rows_with_key (repo s) key) \<le> 1"
      and "list_all (\<lambda>(now, uuid, req). Validate req = None) ((now, uuid, req) # calls)"
  shows "\<exists>n dup s1.
           Create now uuid s req key = (Inr (n, dup), s1) \<and>
           (dup \<longleftrightarrow> \<not> key_absent (repo s) key) \<and>
           (\<not> dup \<longrightarrow> ID n = uuid) \<and>
           Create_many s key ((now, uuid, req) # calls)
             = (Inr (n, dup) # map (\<lambda>c. Inr (n, True)) calls, s1) \<and>
           rows_with_key (repo s1) key = [n]"
proof -
  let ?P = "\<lambda>(k, x). IdempotencyKey x = Some key"
  from assms(5) have valid: "Validate req = None"
    and valids: "list_all (\<lambda>(now, uuid, req). Validate req = None) calls"
    by simp_all
  show ?thesis
  proof (cases "key_absent (repo s) key")
    case True
    from Create_first [OF valid assms(2,3,1) True, of now uuid] obtain n s1 where
      first: "Create now uuid s req key = (Inr (n, False), s1)" and idn: "ID n = uuid" and
      err: "GetByIdempotencyKeyErr (repo s1) = None" and
      one: "filter ?P (notifications (repo s1)) = [(uuid, n)]"
      by blast
    have rest: "Create_many s1 key calls = (map (\<lambda>c. Inr (n, True)) calls, s1)"
      by (rule Create_many_duplicates [OF err assms(1) one valids])
    show ?thesis
      using first idn rest one True
      by (intro exI [of _ n] exI [of _ False] exI [of _ s1]) (simp add: rows_with_key_def)
  next
    case False
    then have "filter ?P (notifications (repo s)) \<noteq> []"
      by (simp add: key_absent_filter)
    with assms(4) obtain k n where one: "filter ?P (notifications (repo s)) = [(k, n)]"
      by (cases "filter ?P (notifications (repo s))") (auto simp: rows_with_key_def)
    have first: "Create now uuid s req key = (Inr (n, True), s)"
      by (rule Create_duplicate [OF valid assms(3,1) one])
    have rest: "Create_many s key calls = (map (\<lambda>c. Inr (n, True)) calls, s)"
      by (rule Create_many_duplicates [OF assms(3,1) one valids])
    show ?thesis
      using first rest one False
      by (intro exI [of _ n] exI [of _ True] exI [of _ s]) (simp add: rows_with_key_def)
  qed
qed


theorem Create_idempotent_witness:
  "''order-42'' \<noteq> [] \<and>
   length (rows_with_key (repo \<lparr>repo = NewMockNotificationRepository, q = New\<rparr>) ''order-42'') \<le> 1 \<and>
   list_all (\<lambda>(now, uuid, req). Validate req = None)
     [(1, ''u1'', validReq), (2, ''u2'', validReq), (3, ''u3'', validReq)] \<and>
   fst (Create_many \<lparr>repo = NewMockNotificationRepository, q = New\<rparr> ''order-42''
          [(1, ''u1'', validReq), (2, ''u2'', validReq), (3, ''u3'', validReq)])
     = [Inr ((buildNotification 1 ''u1'' validReq ''order-42'' None)\<lparr>Status := StatusQueued\<rparr>, False),
        Inr ((buildNotification 1 ''u1'' validReq ''order-42'' None)\<lparr>Status := StatusQueued\<rparr>, True),
        Inr ((buildNotification 1 ''u1'' validReq ''order-42'' None)\<lparr>Status := StatusQueued\<rparr>, True)] \<and>
   rows_with_key (repo (snd (Create_many \<lparr>repo = NewMockNotificationRepository, q = New\<rparr> ''order-42''
          [(1, ''u1'', validReq), (2, ''u2'', validReq), (3, ''u3'', validReq)]))) ''order-42''
     = [(buildNotification 1 ''u1'' validReq ''order-42'' None)\<lparr>Status := StatusQueued\<rparr>]"
proof -
  let ?s = "\<lparr>repo = NewMockNotificationRepository, q = New\<rparr>"
  let ?calls = "[(2, ''u2'', validReq), (3, ''u3'', validReq)] :: (time \<times> string \<times> CreateNotificationRequest) list"
  let ?n = "(buildNotification 1 ''u1'' validReq ''order-42'' None)\<lparr>Status := StatusQueued\<rparr>"
  have k: "''order-42'' \<noteq> []" by simp
  have ce: "CreateErr (repo ?s) = None" and ge: "GetByIdempotencyKeyErr (repo ?s) = None"
    by (simp_all add: NewMockNotificationRepository_def)
  have u: "length (rows_with_key (repo ?s) ''order-42'') \<le> 1"
    by (simp add: rows_with_key_def NewMockNotificationRepository_def)
  have v: "list_all (\<lambda>(now, uuid, req). Validate req = None) ((1, ''u1'', validReq) # ?calls)"
    by (simp add: Validate_def Channel_IsValid_def Priority_IsValid_def validReq_def)
  have first: "fst (Create 1 ''u1'' ?s validReq ''order-42'') = Inr (?n, False)"
    by (simp add: Create_def Validate_def Channel_IsValid_def Priority_IsValid_def validReq_def
          Mock_GetByIdempotencyKey_def buildNotification_def Mock_Create_def
          NewMockNotificationRepository_def enqueue_def Enqueue_def try_send_def New_def
          make_chan_def Mock_UpdateStatus_def Let_def)
  from Create_idempotent [OF k ce ge u v] obtain n dup s1 where
    c: "Create 1 ''u1'' ?s validReq ''order-42'' = (Inr (n, dup), s1)" and
    m: "Create_many ?s ''order-42'' ((1, ''u1'', validReq) # ?calls)
          = (Inr (n, dup) # map (\<lambda>c. Inr (n, True)) ?calls, s1)" and
    r: "rows_with_key (repo s1) ''order-42'' = [n]"
    by blast
  from c first have "n = ?n" and "dup = False" by simp_all
  with m r k u v show ?thesis by simp
qed

lemma build_items_invalid:
  "j < length reqs \<Longrightarrow> Validate (reqs ! j) = Some err \<Longrightarrow>
   (\<forall>k<j. Validate (reqs ! k) = None) \<Longrightarrow>
   build_items now b gen i reqs = Inl (WrapItem (i + j) err)"
proof (induction reqs arbitrary: i j)
  case Nil
  then show ?case by simp
next
  case (Cons r rs)
  show ?case
  proof (cases j)
    case 0
    with Cons.prems show ?thesis by simp
  next
    case (Suc j')
    from Cons.prems(3) Suc have head: "Validate r = None" by auto
    have "build_items now b gen (Suc i) rs = Inl (WrapItem (Suc i + j') err)"
    proof (rule Cons.IH)
      show "j' < length rs" using Cons.prems(1) Suc by simp
      show "Validate (rs ! j') = Some err" using Cons.prems(2) Suc by simp
      show "\<forall>k<j'. Validate (rs ! k) = None"
      proof (intro allI impI)
        fix k assume "k < j'"
        then have "Suc k < j" using Suc by simp
        with Cons.prems(3) have "Validate ((r # rs) ! Suc k) = None" by blast
        then show "Validate (rs ! k) = None" by simp
      qed
    qed
    with head Suc show ?thesis by simp
  qed
qed

lemma build_items_valid:
  "list_all (\<lambda>r. Validate r = None) reqs \<Longrightarrow>
   \<exists>ns. build_items now b gen i reqs = Inr ns \<and> length ns = length reqs \<and>
        list_all (\<lambda>n. BatchID n = Some b) ns"
proof (induction reqs arbitrary: i)
  case Nil
  then show ?case by simp
next
  case (Cons r rs)
  from Cons.IH [of "Suc i"] Cons.prems
  obtain ns where "build_items now b gen (Suc i) rs = Inr ns" "length ns = length rs"
    "list_all (\<lambda>n. BatchID n = Some b) ns"
    by auto
  with Cons.prems show ?case by (simp add: buildNotification_def)
qed

lemma update_absent_appends:
  "k \<notin> fst ` set al \<Longrightarrow> AList.update k v al = al @ [(k, v)]"
  by (induction al) auto

lemma foldl_update_appends:
  "distinct (map ID ns) \<Longrightarrow> set (map ID ns) \<inter> fst ` set al = {} \<Longrightarrow>
   foldl (\<lambda>al n. AList.update (ID n) n al) al ns = al @ map (\<lambda>n. (ID n, n)) ns"
proof (induction ns arbitrary: al)
  case Nil
  then show ?case by simp
next
  case (Cons n ns)
  from Cons.prems have absent: "ID n \<notin> fst ` set al" by auto
  have step: "AList.update (ID n) n al = al @ [(ID n, n)]"
    by (rule update_absent_appends [OF absent])
  have "foldl (\<lambda>al n. AList.update (ID n) n al) (al @ [(ID n, n)]) ns =
        (al @ [(ID n, n)]) @ map (\<lambda>n. (ID n, n)) ns"
  proof (rule Cons.IH)
    show "distinct (map ID ns)" using Cons.prems(1) by simp
    show "set (map ID ns) \<inter> fst ` set (al @ [(ID n, n)]) = {}"
      using Cons.prems by auto
  qed
  then show ?case by (simp add: step)
qed

lemma map_update_same_image:
  "map_of al k = Some v \<Longrightarrow> f (k, v') = f (k, v) \<Longrightarrow> map f (AList.update k v' al) = map f al"
  by (induction al) (auto split: if_splits)

lemma Mock_UpdateStatus_view:
  "child_view (notifications (snd (Mock_UpdateStatus m k st))) = child_view (notifications m)"
  by (auto simp: Mock_UpdateStatus_def split: option.splits intro!: map_update_same_image)

lemma Mock_UpdateStatus_batches: "batches (snd (Mock_UpdateStatus m k st)) = batches m"
  by (simp add: Mock_UpdateStatus_def split: option.splits)

lemma enqueue_view:
  "child_view (notifications (repo (snd (enqueue s n)))) = child_view (notifications (repo s))"
  using Mock_UpdateStatus_view [of "repo s" "ID n" StatusQueued]
  by (auto simp: enqueue_def split: prod.splits option.splits)

lemma enqueue_batches: "batches (repo (snd (enqueue s n))) = batches (repo s)"
  using Mock_UpdateStatus_batches [of "repo s" "ID n" StatusQueued]
  by (auto simp: enqueue_def split: prod.splits option.splits)

lemma enqueue_all_view:
  "child_view (notifications (repo (enqueue_all s ns))) = child_view (notifications (repo s))"
  by (induction ns arbitrary: s) (simp_all add: enqueue_view)

lemma enqueue_all_batches: "batches (repo (enqueue_all s ns)) = batches (repo s)"
  by (induction ns arbitrary: s) (simp_all add: enqueue_batches)

lemma children_by_view:
  "map ID (map snd (filter (\<lambda>(k, n). BatchID n \<noteq> None \<and> BatchID n = Some b) al)) =
   map snd (filter (\<lambda>(bid, i). bid = Some b) (child_view al))"
  by (induction al) auto

lemma view_no_children:
  "filter (\<lambda>(k, n). BatchID n = Some b) al = [] \<Longrightarrow>
   filter (\<lambda>(bid, i). bid = Some b) (child_view al) = []"
  by (induction al) (auto split: if_splits)

lemma view_all_children:
  "list_all (\<lambda>n. BatchID n = Some b) ns \<Longrightarrow>
   map snd (filter (\<lambda>(bid, i). bid = Some b) (child_view (map (\<lambda>n. (ID n, n)) ns))) = map ID ns"
  by (induction ns) auto


lemma CreateBatch_error_keeps_state:
  "CreateBatch now gen created updated s reqs = (Inl e, s') \<Longrightarrow> s' = s"
  by (auto simp: CreateBatch_def Let_def Mock_CreateBatch_def split: if_splits sum.splits)

lemma CreateBatch_first_invalid:
  assumes "0 < length reqs" and "length reqs \<le> 1000" and "i < length reqs"
      and "Validate (reqs ! i) = Some err" and "\<forall>j<i. Validate (reqs ! j) = None"
  shows "CreateBatch now gen created updated s reqs = (Inl (WrapItem i err), s)"
  using assms build_items_invalid [OF assms(3,4,5), of now "gen 0" gen 0]
  by (simp add: CreateBatch_def Let_def)

lemma CreateBatch_success:
  assumes "0 < length reqs" and "length reqs \<le> 1000"
      and valid: "list_all (\<lambda>r. Validate r = None) reqs"
      and dist: "distinct (map gen [0..<Suc (length reqs)])"
      and new: "set (map gen [0..<Suc (length reqs)]) \<inter> fst ` set (notifications (repo s)) = {}"
      and nochild: "filter (\<lambda>(k, n). BatchID n = Some (gen 0)) (notifications (repo s)) = []"
  shows "\<exists>batch s'.
           CreateBatch now gen created updated s reqs = (Inr batch, s') \<and>
           Total batch = int (length reqs) \<and>
           (\<forall>picks. \<exists>children.
              Mock_GetBatch picks (repo s') (gen 0) = Inr (batch, children) \<and>
              length children = length reqs \<and>
              mset (map ID children) = mset (map (\<lambda>j. gen (Suc j)) [0..<length reqs]))"
proof -
  let ?b = "gen 0"
  let ?al = "notifications (repo s)"
  from build_items_valid [OF valid, of now ?b gen 0] obtain ns where
    built: "build_items now ?b gen 0 reqs = Inr ns" and len: "length ns = length reqs" and
    kids: "list_all (\<lambda>n. BatchID n = Some ?b) ns"
    by blast
  have ids: "map ID ns = map (\<lambda>j. gen (Suc j)) [0..<length reqs]"
    using build_items_IDs [OF built] by simp
  have ids': "map ID ns = map gen (map Suc [0..<length reqs])"
    by (simp add: ids comp_def)
  have sub: "set (map Suc [0..<length reqs]) \<subseteq> set [0..<Suc (length reqs)]"
    by auto
  have d_ids: "distinct (map ID ns)"
  proof -
    have "distinct (map gen [Suc 0..<Suc (length reqs)])"
      using dist by (simp add: upt_conv_Cons del: upt_Suc)
    then show ?thesis
      by (simp add: ids' map_Suc_upt del: upt_Suc)
  qed
  have new_ids: "set (map ID ns) \<inter> fst ` set ?al = {}"
  proof -
    have "set (map ID ns) \<subseteq> set (map gen [0..<Suc (length reqs)])"
      unfolding ids' set_map using sub by (intro image_mono) simp
    with new show ?thesis by blast
  qed
  let ?batch = "\<lparr>B_ID = ?b, Total = int (length ns), Pending = int (length ns),
                 Sent = 0, Failed = 0, Cancelled = 0,
                 B_CreatedAt = created, B_UpdatedAt = updated\<rparr>"
  let ?r1 = "(repo s)\<lparr>batches := AList.update ?b ?batch (batches (repo s)),
                       notifications := ?al @ map (\<lambda>n. (ID n, n)) ns\<rparr>"
  let ?s' = "enqueue_all (s\<lparr>repo := ?r1\<rparr>) ns"
  have stored: "Mock_CreateBatch created updated (repo s) ?b ns = (Inr ?batch, ?r1)"
    by (simp add: Mock_CreateBatch_def Let_def foldl_update_appends [OF d_ids new_ids])
  have result: "CreateBatch now gen created updated s reqs = (Inr ?batch, ?s')"
    using assms(1,2) built stored by (simp add: CreateBatch_def Let_def)
  let ?P = "\<lambda>(k, n). BatchID n \<noteq> None \<and> BatchID n = Some ?b"
  let ?stored = "map snd (filter ?P (notifications (repo ?s')))"
  have batch_row: "map_of (batches (repo ?s')) ?b = Some ?batch"
    by (simp add: enqueue_all_batches map_of_update_same)
  have view: "child_view (notifications (repo ?s')) =
              child_view ?al @ child_view (map (\<lambda>n. (ID n, n)) ns)"
    by (simp add: enqueue_all_view)
  have stored_ids: "map ID ?stored = map ID ns"
    unfolding children_by_view view
    using view_no_children [OF nochild] view_all_children [OF kids] by simp
  have found: "\<exists>children.
      Mock_GetBatch picks (repo ?s') ?b = Inr (?batch, children) \<and>
      length children = length reqs \<and>
      mset (map ID children) = mset (map (\<lambda>j. gen (Suc j)) [0..<length reqs])" for picks
  proof -
    let ?children = "map snd (filter ?P (range_order picks (notifications (repo ?s'))))"
    have get: "Mock_GetBatch picks (repo ?s') ?b = Inr (?batch, ?children)"
      by (simp add: Mock_GetBatch_def batch_row)
    have same: "mset ?children = mset ?stored"
      by (simp add: mset_range_order)
    then have "image_mset ID (mset ?children) = image_mset ID (mset ?stored)"
      by (rule arg_cong)
    then have "mset (map ID ?children) = mset (map ID ?stored)"
      by (simp only: mset_map)
    then have child_ids: "mset (map ID ?children) = mset (map ID ns)"
      by (simp only: stored_ids)
    from same have "length ?children = length ?stored"
      by (rule mset_eq_length)
    also have "\<dots> = length (map ID ?stored)" by simp
    also have "\<dots> = length ns" by (simp only: stored_ids length_map)
    finally have "length ?children = length reqs" by (simp add: len)
    with get child_ids ids show ?thesis
      by (intro exI [of _ ?children]) simp
  qed
  from result found len show ?thesis
    by (intro exI [of _ ?batch] exI [of _ ?s']) simp
qed

text \<open>
  C9. \<open>CreateBatch\<close> on the in-memory repository, the uuids it draws being distinct,
  not yet ids of stored rows, and the batch id not yet referred to by a stored row.
  Whenever it returns an error, repository and queue are exactly as before: nothing is
  inserted. An empty request list gives \<open>ErrBatchEmpty\<close>, more than 1000 items give
  \<open>ErrBatchTooLarge\<close>, and otherwise the first item that fails validation gives that
  item's error, wrapped with its index. When every item is valid the call succeeds: the
  batch it returns has \<open>Total\<close> equal to the number of requests, \<open>GetBatch\<close> afterwards
  finds that same batch row, and, in whatever order it ranges over the map, the
  children it finds are as many as the requests, one for each uuid drawn for an item.
\<close>

theorem CreateBatch_all_or_nothing:
  assumes "distinct (map gen [0..<Suc (length reqs)])"
      and "set (map gen [0..<Suc (length reqs)]) \<inter> fst ` set (notifications (repo s)) = {}"
      and "filter (\<lambda>(k, n). BatchID n = Some (gen 0)) (notifications (repo s)) = []"
  shows "(\<forall>e s'. CreateBatch now gen created updated s reqs = (Inl e, s') \<longrightarrow> s' = s) \<and>
         (reqs = [] \<longrightarrow> CreateBatch now gen created updated s reqs = (Inl ErrBatchEmpty, s)) \<and>
         (length reqs > 1000 \<longrightarrow>
            CreateBatch now gen created updated s reqs = (Inl ErrBatchTooLarge, s)) \<and>
         (\<forall>i err. 0 < length reqs \<and> length reqs \<le> 1000 \<and> i < length reqs \<and>
                  Validate (reqs ! i) = Some err \<and> (\<forall>j<i. Validate (reqs ! j) = None) \<longrightarrow>
            CreateBatch now gen created updated s reqs = (Inl (WrapItem i err), s)) \<and>
         (0 < length reqs \<and> length reqs \<le> 1000 \<and> list_all (\<lambda>r. Validate r = None) reqs \<longrightarrow>
            (\<exists>batch s'.
               CreateBatch now gen created updated s reqs = (Inr batch, s') \<and>
               Total batch = int (length reqs) \<and>
               (\<forall>picks. \<exists>children.
                  Mock_GetBatch picks (repo s') (gen 0) = Inr (batch, children) \<and>
                  length children = length reqs \<and>
                  mset (map ID children) = mset (map (\<lambda>j. gen (Suc j)) [0..<length reqs]))))"
proof (intro conjI allI impI)
  fix e s'
  assume "CreateBatch now gen created updated s reqs = (Inl e, s')"
  then show "s' = s" by (rule CreateBatch_error_keeps_state)
next
  assume "reqs = []"
  then show "CreateBatch now gen created updated s reqs = (Inl ErrBatchEmpty, s)"
    by (simp add: CreateBatch_def)
next
  assume "length reqs > 1000"
  then show "CreateBatch now gen created updated s reqs = (Inl ErrBatchTooLarge, s)"
    by (auto simp: CreateBatch_def)
next
  fix i err
  assume "0 < length reqs \<and> length reqs \<le> 1000 \<and> i < length reqs \<and>
          Validate (reqs ! i) = Some err \<and> (\<forall>j<i. Validate (reqs ! j) = None)"
  then show "CreateBatch now gen created updated s reqs = (Inl (WrapItem i err), s)"
    by (intro CreateBatch_first_invalid) simp_all
next
  assume "0 < length reqs \<and> length reqs \<le> 1000 \<and> list_all (\<lambda>r. Validate r = None) reqs"
  then show "\<exists>batch s'.
               CreateBatch now gen created updated s reqs = (Inr batch, s') \<and>
               Total batch = int (length reqs) \<and>
               (\<forall>picks. \<exists>children.
                  Mock_GetBatch picks (repo s') (gen 0) = Inr (batch, children) \<and>
                  length children = length reqs \<and>
                  mset (map ID children) = mset (map (\<lambda>j. gen (Suc j)) [0..<length reqs]))"
    using assms by (intro CreateBatch_success) simp_all
qed


theorem CreateBatch_all_or_nothing_witness:
  "distinct (map (\<lambda>i. ''id-'' @ replicate i CHR ''x'') [0..<Suc (length [validReq, validReq])]) \<and>
   set (map (\<lambda>i. ''id-'' @ replicate i CHR ''x'') [0..<Suc (length [validReq, validReq])]) \<inter>
     fst ` set (notifications (repo \<lparr>repo = NewMockNotificationRepository, q = New\<rparr>)) = {} \<and>
   filter (\<lambda>(k, n). BatchID n = Some ''id-'')
     (notifications (repo \<lparr>repo = NewMockNotificationRepository, q = New\<rparr>)) = [] \<and>
   (\<exists>batch s' children.
      CreateBatch 5 (\<lambda>i. ''id-'' @ replicate i CHR ''x'') 6 7
          \<lparr>repo = NewMockNotificationRepository, q = New\<rparr> [validReq, validReq]
        = (Inr batch, s') \<and>
      Total batch = 2 \<and>
      Mock_GetBatch [1] (repo s') ''id-'' = Inr (batch, children) \<and>
      length children = 2 \<and> mset (map ID children) = mset [''id-x'', ''id-xx'']) \<and>
   CreateBatch 5 (\<lambda>i. ''id-'' @ replicate i CHR ''x'') 6 7
       \<lparr>repo = NewMockNotificationRepository, q = New\<rparr>
       [validReq, validReq\<lparr>ReqChannel := ''fax''\<rparr>]
     = (Inl (WrapItem 1 ErrInvalidChannel), \<lparr>repo = NewMockNotificationRepository, q = New\<rparr>)"
proof -
  let ?gen = "\<lambda>i. ''id-'' @ replicate i CHR ''x''"
  let ?s = "\<lparr>repo = NewMockNotificationRepository, q = New\<rparr>"
  let ?bad = "validReq\<lparr>ReqChannel := ''fax''\<rparr>"
  have ok: "Validate validReq = None"
    by (simp add: Validate_def Channel_IsValid_def Priority_IsValid_def validReq_def)
  have bad: "Validate ?bad = Some ErrInvalidChannel"
    by (simp add: Validate_def Channel_IsValid_def)
  have d: "distinct (map ?gen [0..<Suc (length reqs)])" if "length reqs = 2" for reqs :: "CreateNotificationRequest list"
    using that by (simp add: numeral_2_eq_2)
  have n: "set (map ?gen [0..<Suc (length reqs)]) \<inter> fst ` set (notifications (repo ?s)) = {}"
    for reqs :: "CreateNotificationRequest list"
    by (simp add: NewMockNotificationRepository_def)
  have c: "filter (\<lambda>(k, n). BatchID n = Some (?gen 0)) (notifications (repo ?s)) = []"
    by (simp add: NewMockNotificationRepository_def)
  have d1: "distinct (map ?gen [0..<Suc (length [validReq, validReq])])" by (rule d) simp
  have d2: "distinct (map ?gen [0..<Suc (length [validReq, ?bad])])" by (rule d) simp
  from CreateBatch_all_or_nothing [OF d1 n c, of 5 6 7] ok
  have "\<exists>batch s'.
      CreateBatch 5 ?gen 6 7 ?s [validReq, validReq] = (Inr batch, s') \<and>
      Total batch = 2 \<and>
      (\<forall>picks. \<exists>children.
         Mock_GetBatch picks (repo s') ''id-'' = Inr (batch, children) \<and>
         length children = 2 \<and> mset (map ID children) = mset [''id-x'', ''id-xx''])"
    by (simp add: numeral_2_eq_2)
  then have good: "\<exists>batch s' children.
      CreateBatch 5 ?gen 6 7 ?s [validReq, validReq] = (Inr batch, s') \<and>
      Total batch = 2 \<and>
      Mock_GetBatch [1] (repo s') ''id-'' = Inr (batch, children) \<and>
      length children = 2 \<and> mset (map ID children) = mset [''id-x'', ''id-xx'']"
    by blast
  from CreateBatch_all_or_nothing [OF d2 n c, of 5 6 7]
  have "\<forall>i err. i < 2 \<and> Validate ([validReq, ?bad] ! i) = Some err \<and>
                 (\<forall>j<i. Validate ([validReq, ?bad] ! j) = None) \<longrightarrow>
           CreateBatch 5 ?gen 6 7 ?s [validReq, ?bad] = (Inl (WrapItem i err), ?s)"
    by simp
  then have "1 < (2::nat) \<and> Validate ([validReq, ?bad] ! 1) = Some ErrInvalidChannel \<and>
                 (\<forall>j<1. Validate ([validReq, ?bad] ! j) = None) \<longrightarrow>
           CreateBatch 5 ?gen 6 7 ?s [validReq, ?bad] = (Inl (WrapItem 1 ErrInvalidChannel), ?s)"
    by blast
  with ok bad have failed: "CreateBatch 5 ?gen 6 7 ?s [validReq, ?bad]
                      = (Inl (WrapItem 1 ErrInvalidChannel), ?s)"
    by simp
  from c have c': "filter (\<lambda>(k, n). BatchID n = Some ''id-'') (notifications (repo ?s)) = []"
    by simp
  from d1 n [of "[validReq, validReq]"] c' good failed show ?thesis by blast
qed

end
